theory Spec2Isabelle
  imports Main "HOL-Library.Word" "HOL-Library.Sublist"
begin

section \<open>Data model\<close>

text \<open>
  A blob is a byte sequence (\<open>Uint8Array\<close> / \<open>Buffer\<close>); a blob identifier, a file
  path and a line of output are strings.
\<close>

type_synonym byte = "8 word"
type_synonym bytes = "byte list"

text \<open>
  Values that the scripts throw and catch. \<open>RetryableWalrusClientError\<close> is the SDK's
  class tested with \<open>instanceof\<close>; \<open>SdkError\<close> is any other rejection of an SDK call;
  \<open>FsError\<close> is what \<open>readFileSync\<close>/\<open>writeFileSync\<close> throw; \<open>ExecError\<close> is the
  rejection of \<open>execAsync\<close>; \<open>Error msg\<close> is \<open>new Error(msg)\<close> thrown by the code itself.
\<close>

datatype error =
    RetryableWalrusClientError string
  | SdkError string
  | FsError string
  | ExecError string
  | Error string

fun isRetryable :: "error \<Rightarrow> bool" where
  "isRetryable (RetryableWalrusClientError _) = True"
| "isRetryable _ = False"

text \<open>The object \<open>writeBlob\<close> resolves to; its \<open>blobId\<close> field (\<open>result.blobId\<close>) is the only one read.\<close>

record write_result =
  result_blobId :: string

text \<open>
  The outside world, seen from one script run: the storage network and the client's
  connection state, and the file system. The state \<open>'s\<close> is opaque; each operation
  returns its outcome and the next state. \<open>reset\<close> is \<open>walrusClient.walrus.reset()\<close>;
  \<open>path_join\<close> is the runtime's \<open>path.join\<close>, applied to the list of its arguments.
\<close>

record 's sys =
  writeBlob :: "'s \<Rightarrow> bytes \<Rightarrow> (error + write_result) \<times> 's"
  readBlob :: "'s \<Rightarrow> string \<Rightarrow> (error + bytes) \<times> 's"
  getBlob :: "'s \<Rightarrow> string \<Rightarrow> (error + unit) \<times> 's"
  reset :: "'s \<Rightarrow> 's"
  readFileSync :: "'s \<Rightarrow> string \<Rightarrow> error + bytes"
  writeFileSync :: "'s \<Rightarrow> string \<Rightarrow> bytes \<Rightarrow> (error + unit) \<times> 's"
  path_join :: "string list \<Rightarrow> string"

text \<open>The effects a run performs, in order.\<close>

datatype effect =
    WriteBlob bytes
  | ReadBlob string
  | GetBlob string
  | Reset
  | Sleep nat
  | WriteFile string bytes
  | ReadFile string
  | Unlink string
  | Mkdir string
  | Exec string

fun isWrite :: "effect \<Rightarrow> bool" where
  "isWrite (WriteBlob _) = True"
| "isWrite _ = False"

fun isRead :: "effect \<Rightarrow> bool" where
  "isRead (ReadBlob _) = True"
| "isRead _ = False"

fun isNetwork :: "effect \<Rightarrow> bool" where
  "isNetwork (WriteBlob _) = True"
| "isNetwork (ReadBlob _) = True"
| "isNetwork (GetBlob _) = True"
| "isNetwork _ = False"

fun sleeps :: "effect list \<Rightarrow> nat list" where
  "sleeps [] = []"
| "sleeps (Sleep ms # es) = ms # sleeps es"
| "sleeps (_ # es) = sleeps es"

definition writes :: "effect list \<Rightarrow> nat" where
  "writes es = length (filter isWrite es)"

definition reads :: "effect list \<Rightarrow> nat" where
  "reads es = length (filter isRead es)"

text \<open>
  Every operation below returns its outcome, the next state and the effects it
  performed.
\<close>

definition outcome_of :: "'a \<times> 's \<times> effect list \<Rightarrow> 'a" where
  "outcome_of r = fst r"

definition state_of :: "'a \<times> 's \<times> effect list \<Rightarrow> 's" where
  "state_of r = fst (snd r)"

definition effects_of :: "'a \<times> 's \<times> effect list \<Rightarrow> effect list" where
  "effects_of r = snd (snd r)"

section \<open>scripts/walrus-upload.js: the upload retry loop\<close>

definition maxAttempts :: nat where
  "maxAttempts = 3"

text \<open>
  The \<open>while (attempts < maxAttempts)\<close> loop of \<open>uploadToWalrus\<close> (the same loop is the
  upload half of the combined upload-and-verify script). \<open>result\<close> starts undefined
  (\<open>None\<close>). A resolved \<open>writeBlob\<close> assigns \<open>result\<close> and breaks. A rejected one
  increments \<open>attempts\<close>, resets the client when the error is an instance of
  \<open>RetryableWalrusClientError\<close>, and sleeps \<open>attempts * 3000\<close> ms when attempts remain.
\<close>

function upload_loop ::
  "'s sys \<Rightarrow> bytes \<Rightarrow> nat \<Rightarrow> 's \<Rightarrow> write_result option \<times> 's \<times> effect list" where
  "upload_loop w blob attempts s =
     (if attempts < maxAttempts then
        (case writeBlob w s blob of
           (Inr r, s1) \<Rightarrow> (Some r, s1, [WriteBlob blob])
         | (Inl e, s1) \<Rightarrow>
             (let attempts' = attempts + 1;
                  (s2, ev_reset) = (if isRetryable e then (reset w s1, [Reset]) else (s1, []));
                  ev_sleep = (if attempts' < maxAttempts then [Sleep (attempts' * 3000)] else []);
                  (res, s3, evs) = upload_loop w blob attempts' s2
              in (res, s3, WriteBlob blob # ev_reset @ ev_sleep @ evs)))
      else (None, s, []))"
  by pat_completeness auto
termination
  by (relation "measure (\<lambda>(w, blob, attempts, s). maxAttempts - attempts)") auto

text \<open>
  \<open>uploadToWalrus(filePath)\<close>: read the file, run the loop, throw
  \<open>Upload failed after all retries\<close> when \<open>!result || !result.blobId\<close>. The outer
  \<open>catch\<close> logs and rethrows, so every error is the function's rejection.
\<close>

definition uploadToWalrus ::
  "'s sys \<Rightarrow> string \<Rightarrow> 's \<Rightarrow> (error + string) \<times> 's \<times> effect list" where
  "uploadToWalrus w filePath s =
     (case readFileSync w s filePath of
        Inl e \<Rightarrow> (Inl e, s, [])
      | Inr fileContents \<Rightarrow>
          (case upload_loop w fileContents 0 s of
             (None, s', evs) \<Rightarrow> (Inl (Error ''Upload failed after all retries''), s', evs)
           | (Some r, s', evs) \<Rightarrow>
               (if result_blobId r = [] then (Inl (Error ''Upload failed after all retries''), s', evs)
                else (Inr (result_blobId r), s', evs))))"


text \<open>\<open>downloadFromWalrus(blobId)\<close> of the same script: one \<open>readBlob\<close>, no loop.\<close>

definition downloadFromWalrus ::
  "'s sys \<Rightarrow> string \<Rightarrow> 's \<Rightarrow> (error + bytes) \<times> 's \<times> effect list" where
  "downloadFromWalrus w blobId s =
     (case readBlob w s blobId of
        (Inl e, s1) \<Rightarrow> (Inl e, s1, [ReadBlob blobId])
      | (Inr fileContents, s1) \<Rightarrow> (Inr fileContents, s1, [ReadBlob blobId]))"

section \<open>The combined upload-and-verify script\<close>

text \<open>
  The body of the \<open>try\<close> in both retrieval loops: \<open>readBlob\<close>, then
  \<open>writeFileSync(outPath, ...)\<close>; what follows only logs. An exception of either call
  reaches the loop's \<open>catch\<close>.
\<close>

definition try_retrieve ::
  "'s sys \<Rightarrow> string \<Rightarrow> string \<Rightarrow> 's \<Rightarrow> (error + bytes) \<times> 's \<times> effect list" where
  "try_retrieve w blobId outPath s =
     (case readBlob w s blobId of
        (Inl e, s1) \<Rightarrow> (Inl e, s1, [ReadBlob blobId])
      | (Inr retrievedContents, s1) \<Rightarrow>
          (case writeFileSync w s1 outPath retrievedContents of
             (Inl e, s2) \<Rightarrow> (Inl e, s2, [ReadBlob blobId, WriteFile outPath retrievedContents])
           | (Inr _, s2) \<Rightarrow>
               (Inr retrievedContents, s2, [ReadBlob blobId, WriteFile outPath retrievedContents])))"

definition maxRetrievalAttempts :: nat where
  "maxRetrievalAttempts = 3"

text \<open>
  The retrieval loop of \<open>main\<close>: on a caught error it increments \<open>retrievalAttempts\<close>,
  resets on a retryable error, sleeps \<open>retrievalAttempts * 5000\<close> ms when attempts
  remain and otherwise only warns. \<open>None\<close> is the loop ending with nothing retrieved.
\<close>

function retrieval_loop ::
  "'s sys \<Rightarrow> string \<Rightarrow> nat \<Rightarrow> 's \<Rightarrow> bytes option \<times> 's \<times> effect list" where
  "retrieval_loop w blobId retrievalAttempts s =
     (if retrievalAttempts < maxRetrievalAttempts then
        (case try_retrieve w blobId ''downloaded_clean.pdf'' s of
           (Inr c, s1, ev) \<Rightarrow> (Some c, s1, ev)
         | (Inl e, s1, ev) \<Rightarrow>
             (let attempts' = retrievalAttempts + 1;
                  (s2, ev_reset) = (if isRetryable e then (reset w s1, [Reset]) else (s1, []));
                  ev_sleep = (if attempts' < maxRetrievalAttempts
                              then [Sleep (attempts' * 5000)] else []);
                  (res, s3, evs) = retrieval_loop w blobId attempts' s2
              in (res, s3, ev @ ev_reset @ ev_sleep @ evs)))
      else (None, s, []))"
  by pat_completeness auto
termination
  by (relation "measure (\<lambda>(w, blobId, attempts, s). maxRetrievalAttempts - attempts)") auto

text \<open>
  How a run of \<open>main\<close> ends. It returns normally in every case (its promise resolves):
  the file cannot be read, the upload gave no blob id, the blob was retrieved, or all
  retrieval attempts failed (a warning and the blob id are logged).
\<close>

datatype main_outcome =
    PdfUnreadable
  | UploadFailed
  | Retrieved string bytes
  | RetrievalGaveUp string

definition main :: "'s sys \<Rightarrow> 's \<Rightarrow> (error + main_outcome) \<times> 's \<times> effect list" where
  "main w s =
     (case readFileSync w s ''./test.pdf'' of
        Inl e \<Rightarrow> (Inr PdfUnreadable, s, [])
      | Inr pdfContents \<Rightarrow>
          (case upload_loop w pdfContents 0 s of
             (None, s1, ev) \<Rightarrow> (Inr UploadFailed, s1, ev)
           | (Some r, s1, ev) \<Rightarrow>
               (if result_blobId r = [] then (Inr UploadFailed, s1, ev)
                else
                  (case retrieval_loop w (result_blobId r) 0 s1 of
                     (Some c, s2, ev') \<Rightarrow>
                       (Inr (Retrieved (result_blobId r) c), s2, ev @ [Sleep 8000] @ ev')
                   | (None, s2, ev') \<Rightarrow>
                       (Inr (RetrievalGaveUp (result_blobId r)), s2, ev @ [Sleep 8000] @ ev')))))"

section \<open>The standalone retrieval script\<close>

definition standalone_blobId :: string where
  "standalone_blobId = ''SxBnbtaYl9w90hBVRg9JTDIG_L4EtYvX0kO7WRS85Y4''"

definition maxRetrievalAttempts_standalone :: nat where
  "maxRetrievalAttempts_standalone = 2"

text \<open>
  The retrieval loop of \<open>attemptDownload\<close>: two attempts, a delay of
  \<open>retrievalAttempts * 3000\<close> ms, and on the last failure
  \<open>throw new Error(`All retrieval attempts failed for blob ID: ${blobId}`)\<close>.
  A successful attempt returns from the function.
\<close>

function attempt_loop ::
  "'s sys \<Rightarrow> string \<Rightarrow> nat \<Rightarrow> 's \<Rightarrow> (error + unit) \<times> 's \<times> effect list" where
  "attempt_loop w blobId retrievalAttempts s =
     (if retrievalAttempts < maxRetrievalAttempts_standalone then
        (case try_retrieve w blobId ''downloaded_test.pdf'' s of
           (Inr c, s1, ev) \<Rightarrow> (Inr (), s1, ev)
         | (Inl e, s1, ev) \<Rightarrow>
             (let attempts' = retrievalAttempts + 1;
                  (s2, ev_reset) = (if isRetryable e then (reset w s1, [Reset]) else (s1, []))
              in if attempts' < maxRetrievalAttempts_standalone then
                   (let (res, s3, evs) = attempt_loop w blobId attempts' s2
                    in (res, s3, ev @ ev_reset @ [Sleep (attempts' * 3000)] @ evs))
                 else
                   (Inl (Error (''All retrieval attempts failed for blob ID: '' @ blobId)),
                    s2, ev @ ev_reset)))
      else (Inr (), s, []))"
  by pat_completeness auto
termination
  by (relation "measure (\<lambda>(w, blobId, attempts, s). maxRetrievalAttempts_standalone - attempts)")
     auto

text \<open>
  \<open>attemptDownload(walrusClient, methodName)\<close>: the existence check \<open>getBlob\<close> (its
  error is caught and only logged), then the loop.
\<close>

definition attemptDownload :: "'s sys \<Rightarrow> 's \<Rightarrow> (error + unit) \<times> 's \<times> effect list" where
  "attemptDownload w s =
     (case getBlob w s standalone_blobId of
        (_, s1) \<Rightarrow>
          (case attempt_loop w standalone_blobId 0 s1 of
             (res, s2, evs) \<Rightarrow> (res, s2, GetBlob standalone_blobId # evs)))"

text \<open>
  \<open>downloadBlobById()\<close> tries two client configurations in turn; the error of an
  approach is caught and logged, and after both have failed the function logs and
  returns normally.
\<close>

definition downloadBlobById :: "'s sys \<Rightarrow> 's sys \<Rightarrow> 's \<Rightarrow> (error + unit) \<times> 's \<times> effect list" where
  "downloadBlobById relay direct s =
     (case attemptDownload relay s of
        (Inr _, s1, ev) \<Rightarrow> (Inr (), s1, ev)
      | (Inl _, s1, ev) \<Rightarrow>
          (case attemptDownload direct s1 of
             (_, s2, ev') \<Rightarrow> (Inr (), s2, ev @ ev')))"

section \<open>JavaScript string operations used by the library\<close>

definition startsWith :: "string \<Rightarrow> string \<Rightarrow> bool" where
  "startsWith s p = prefix p s"

text \<open>\<open>s.split(sep)\<close> for a one-character separator.\<close>

fun split_on :: "char \<Rightarrow> string \<Rightarrow> string list" where
  "split_on sep [] = [[]]"
| "split_on sep (c # cs) =
     (if c = sep then [] # split_on sep cs
      else (case split_on sep cs of
              [] \<Rightarrow> [[c]]
            | l # ls \<Rightarrow> (c # l) # ls))"

text \<open>\<open>s.replace(pat, rep)\<close> with a string pattern: the first occurrence only.\<close>

fun replace_first :: "string \<Rightarrow> string \<Rightarrow> string \<Rightarrow> string" where
  "replace_first pat rep [] = (if pat = [] then rep else [])"
| "replace_first pat rep (c # cs) =
     (if prefix pat (c # cs) then rep @ drop (length pat) (c # cs)
      else c # replace_first pat rep cs)"

text \<open>
  A string is the list of the bytes of its UTF-8 encoding. \<open>s.trim()\<close> removes from both
  ends the code points of \<open>WhiteSpace\<close> and \<open>LineTerminator\<close>: U+0009 to U+000D, U+0020,
  U+00A0, U+1680, U+2000 to U+200A, U+2028, U+2029, U+202F, U+205F, U+3000 and U+FEFF.
  \<open>js_whitespace\<close> lists their encodings.
\<close>

definition js_whitespace :: "string list" where
  "js_whitespace =
     [[CHR 0x09], [CHR 0x0A], [CHR 0x0B], [CHR 0x0C], [CHR 0x0D], [CHR 0x20],
      [CHR 0xC2, CHR 0xA0],
      [CHR 0xE1, CHR 0x9A, CHR 0x80],
      [CHR 0xE2, CHR 0x80, CHR 0x80], [CHR 0xE2, CHR 0x80, CHR 0x81],
      [CHR 0xE2, CHR 0x80, CHR 0x82], [CHR 0xE2, CHR 0x80, CHR 0x83],
      [CHR 0xE2, CHR 0x80, CHR 0x84], [CHR 0xE2, CHR 0x80, CHR 0x85],
      [CHR 0xE2, CHR 0x80, CHR 0x86], [CHR 0xE2, CHR 0x80, CHR 0x87],
      [CHR 0xE2, CHR 0x80, CHR 0x88], [CHR 0xE2, CHR 0x80, CHR 0x89],
      [CHR 0xE2, CHR 0x80, CHR 0x8A],
      [CHR 0xE2, CHR 0x80, CHR 0xA8], [CHR 0xE2, CHR 0x80, CHR 0xA9],
      [CHR 0xE2, CHR 0x80, CHR 0xAF],
      [CHR 0xE2, CHR 0x81, CHR 0x9F],
      [CHR 0xE3, CHR 0x80, CHR 0x80],
      [CHR 0xEF, CHR 0xBB, CHR 0xBF]]"

text \<open>Remove, as long as there is one, a member of \<open>ws\<close> from the front of the string.\<close>

function strip_front :: "string list \<Rightarrow> string \<Rightarrow> string" where
  "strip_front ws s =
     (case find (\<lambda>w. w \<noteq> [] \<and> prefix w s) ws of
        None \<Rightarrow> s
      | Some w \<Rightarrow> strip_front ws (drop (length w) s))"
  by pat_completeness auto
termination
proof (relation "measure (\<lambda>(ws, s). length s)")
  show "wf (measure (\<lambda>(ws, s). length s))" by simp
next
  fix ws :: "string list" and s w :: string
  assume "find (\<lambda>w. w \<noteq> [] \<and> prefix w s) ws = Some w"
  then have "w \<noteq> []" and "prefix w s" by (auto simp: find_Some_iff)
  then have "0 < length w" and "length w \<le> length s" by (auto simp: prefix_length_le)
  then have "length s - length w < length s" by arith
  then show "((ws, drop (length w) s), (ws, s)) \<in> measure (\<lambda>(ws, s). length s)" by simp
qed

definition trim :: "string \<Rightarrow> string" where
  "trim s = rev (strip_front (map rev js_whitespace) (rev (strip_front js_whitespace s)))"

text \<open>\<open>s.substr(start, len)\<close> for a start inside the string.\<close>

definition substr :: "nat \<Rightarrow> nat \<Rightarrow> string \<Rightarrow> string" where
  "substr start len s = take len (drop start s)"

text \<open>The decimal digits of a number, as template literals and \<open>toString()\<close> print it.\<close>

function show_nat :: "nat \<Rightarrow> string" where
  "show_nat n =
     (if n < 10 then [''0123456789'' ! n]
      else show_nat (n div 10) @ [''0123456789'' ! (n mod 10)])"
  by pat_completeness auto
termination
  by (relation "measure (\<lambda>n. n)") auto

definition dquote :: string where
  "dquote = [CHR 0x22]"

definition newline :: char where
  "newline = CHR 0x0A"

section \<open>The library: upload and download through a separate process\<close>

text \<open>
  What the library calls: \<open>execAsync\<close> resolves to \<open>(stdout, stderr)\<close> or rejects;
  \<open>unlinkSync\<close> and \<open>mkdirSync\<close> are called inside a \<open>try\<close> whose \<open>catch\<close> only logs, so
  only their effect on the state is kept; \<open>dateNow\<close> is \<open>Date.now()\<close>, \<open>mathRandom36\<close>
  is \<open>Math.random().toString(36)\<close>, \<open>cwd\<close> is \<open>process.cwd()\<close>, \<open>host_path_join\<close> is
  \<open>path.join\<close> applied to the list of its arguments. \<open>headerValueOk v\<close> says whether the
  runtime's \<open>Headers\<close> accepts \<open>v\<close> as the value of a header; the constructor of a
  response throws a \<open>TypeError\<close> for a value it does not accept.
\<close>

record 'h host =
  execAsync :: "'h \<Rightarrow> string \<Rightarrow> (error + string \<times> string) \<times> 'h"
  host_writeFileSync :: "'h \<Rightarrow> string \<Rightarrow> bytes \<Rightarrow> (error + unit) \<times> 'h"
  host_readFileSync :: "'h \<Rightarrow> string \<Rightarrow> error + bytes"
  unlinkSync :: "'h \<Rightarrow> string \<Rightarrow> 'h"
  mkdirSync :: "'h \<Rightarrow> string \<Rightarrow> 'h"
  dateNow :: "'h \<Rightarrow> nat"
  mathRandom36 :: "'h \<Rightarrow> string \<times> 'h"
  cwd :: string
  host_path_join :: "string list \<Rightarrow> string"
  headerValueOk :: "string \<Rightarrow> bool"

definition mock_prefix :: string where
  "mock_prefix = ''mock-blob-''"

text \<open>
  The values the library's \<open>uploadToWalrus\<close> computes before it writes: \<open>tempDir\<close>,
  \<open>tempFile\<close> (named after \<open>Date.now()\<close> and \<open>Math.random()\<close> read in the state \<open>s\<close>),
  \<open>scriptPath\<close> and \<open>command\<close>; \<open>upload_ready\<close> is the state after the random number
  has been drawn and \<open>mkdirSync\<close> has run.
\<close>

definition tempDir :: "'h host \<Rightarrow> string" where
  "tempDir h = host_path_join h [cwd h, ''temp'']"

definition tempFile :: "'h host \<Rightarrow> 'h \<Rightarrow> string" where
  "tempFile h s =
     host_path_join h
       [tempDir h,
        ''upload-'' @ show_nat (dateNow h s) @ ''-'' @ substr 2 9 (fst (mathRandom36 h s)) @
        ''.tmp'']"

definition upload_ready :: "'h host \<Rightarrow> 'h \<Rightarrow> 'h" where
  "upload_ready h s = mkdirSync h (snd (mathRandom36 h s)) (tempDir h)"

definition scriptPath :: "'h host \<Rightarrow> string" where
  "scriptPath h = host_path_join h [cwd h, ''scripts'', ''walrus-upload.js'']"

definition upload_command :: "'h host \<Rightarrow> 'h \<Rightarrow> string" where
  "upload_command h s =
     ''node '' @ dquote @ scriptPath h @ dquote @ '' upload '' @ dquote @ tempFile h s @ dquote"

definition download_command :: "'h host \<Rightarrow> string \<Rightarrow> string" where
  "download_command h blobId =
     ''node '' @ dquote @ scriptPath h @ dquote @ '' download '' @ dquote @ blobId @ dquote"

text \<open>
  \<open>`mock-blob-${Date.now()}-${Math.random().toString(36).substr(2, 9)}`\<close>, computed in
  the state \<open>s\<close>.
\<close>

definition mockBlobId :: "'h host \<Rightarrow> 'h \<Rightarrow> string" where
  "mockBlobId h s =
     mock_prefix @ show_nat (dateNow h s) @ ''-'' @ substr 2 9 (fst (mathRandom36 h s))"

text \<open>The \<open>catch\<close> of the library's \<open>uploadToWalrus\<close>: log, build the mock id, return it.\<close>

definition upload_fallback ::
  "'h host \<Rightarrow> 'h \<Rightarrow> effect list \<Rightarrow> (error + string) \<times> 'h \<times> effect list" where
  "upload_fallback h s evs = (Inr (mockBlobId h s), snd (mathRandom36 h s), evs)"

definition lib_uploadToWalrus ::
  "'h host \<Rightarrow> bytes \<Rightarrow> 'h \<Rightarrow> (error + string) \<times> 'h \<times> effect list" where
  "lib_uploadToWalrus h fileContents s =
     (let ev2 = [Mkdir (tempDir h), WriteFile (tempFile h s) fileContents]
      in case host_writeFileSync h (upload_ready h s) (tempFile h s) fileContents of
           (Inl e, s3) \<Rightarrow> upload_fallback h s3 ev2
         | (Inr _, s3) \<Rightarrow>
             (let command = upload_command h s;
                  ev3 = ev2 @ [Exec command]
              in case execAsync h s3 command of
                   (Inl e, s4) \<Rightarrow> upload_fallback h s4 ev3
                 | (Inr (stdout, stderr), s4) \<Rightarrow>
                     (let s5 = unlinkSync h s4 (tempFile h s);
                          ev5 = ev3 @ [Unlink (tempFile h s)]
                      in case find (\<lambda>line. startsWith line ''Blob ID:'')
                                   (split_on newline stdout) of
                           None \<Rightarrow> upload_fallback h s5 ev5
                         | Some blobIdLine \<Rightarrow>
                             (Inr (trim (replace_first ''Blob ID:'' [] blobIdLine)), s5, ev5))))"

definition lib_downloadFromWalrus ::
  "'h host \<Rightarrow> string \<Rightarrow> 'h \<Rightarrow> (error + bytes) \<times> 'h \<times> effect list" where
  "lib_downloadFromWalrus h blobId s =
     (if startsWith blobId mock_prefix then
        (Inl (Error ''Cannot download mock blob ID''), s, [])
      else
        (let command = download_command h blobId
         in case execAsync h s command of
              (Inl e, s1) \<Rightarrow> (Inl e, s1, [Exec command])
            | (Inr (stdout, stderr), s1) \<Rightarrow>
                (case find (\<lambda>line. startsWith line ''File saved to:'')
                           (split_on newline stdout) of
                   None \<Rightarrow> (Inl (Error ''Could not find downloaded file path''), s1, [Exec command])
                 | Some filePathLine \<Rightarrow>
                     (let filePath = trim (replace_first ''File saved to:'' [] filePathLine)
                      in case host_readFileSync h s1 filePath of
                           Inl e \<Rightarrow> (Inl e, s1, [Exec command, ReadFile filePath])
                         | Inr fileContents \<Rightarrow>
                             (Inr fileContents, unlinkSync h s1 filePath,
                              [Exec command, ReadFile filePath, Unlink filePath])))))"

section \<open>The HTTP route GET /download/[blobId]\<close>

datatype body = Json string | Raw bytes

record response =
  status :: nat
  headers :: "(string \<times> string) list"
  body :: body

text \<open>\<open>NextResponse.json({ error: msg }, { status })\<close>.\<close>

definition json_error :: "string \<Rightarrow> nat \<Rightarrow> response" where
  "json_error msg st =
     \<lparr>status = st, headers = [(''content-type'', ''application/json'')], body = Json msg\<rparr>"

text \<open>The headers of the successful response, in the order the route writes them.\<close>

definition download_headers :: "string \<Rightarrow> bytes \<Rightarrow> (string \<times> string) list" where
  "download_headers blobId fileContents =
     [(''Content-Type'', ''application/octet-stream''),
      (''Content-Disposition'', ''attachment; filename='' @ dquote @ ''file-'' @ blobId @ dquote),
      (''Content-Length'', show_nat (length fileContents))]"

text \<open>
  \<open>params.blobId\<close> is \<open>None\<close> when the parameter is undefined; \<open>!blobId\<close> also holds
  for the empty string. A response built without a status has status 200.
  \<open>new NextResponse(fileContents, { headers })\<close> is inside the \<open>try\<close>: when it throws
  because a header value is not accepted, the \<open>catch\<close> answers 500 like for a failed
  download.
\<close>

definition GET :: "'h host \<Rightarrow> string option \<Rightarrow> 'h \<Rightarrow> response \<times> 'h \<times> effect list" where
  "GET h param s =
     (case param of
        None \<Rightarrow> (json_error ''Blob ID is required'' 400, s, [])
      | Some blobId \<Rightarrow>
          (if blobId = [] then (json_error ''Blob ID is required'' 400, s, [])
           else if startsWith blobId ''mock-blob-'' then
             (json_error ''Mock blob ID - file not available for download'' 404, s, [])
           else
             (case lib_downloadFromWalrus h blobId s of
                (Inl e, s1, evs) \<Rightarrow> (json_error ''Failed to download file'' 500, s1, evs)
              | (Inr fileContents, s1, evs) \<Rightarrow>
                  (if list_all (\<lambda>nv. headerValueOk h (snd nv))
                        (download_headers blobId fileContents)
                   then (\<lparr>status = 200,
                          headers = download_headers blobId fileContents,
                          body = Raw fileContents\<rparr>, s1, evs)
                   else (json_error ''Failed to download file'' 500, s1, evs)))))"

section \<open>scripts/walrus-upload.js: the signing credential\<close>










section \<open>scripts/walrus-upload.js: the command line\<close>

text \<open>
  A run's exit code and the lines the command dispatch prints on standard output. The
  diagnostic lines that the script prints elsewhere all start with an emoji and are
  not kept.
\<close>

record run =
  exitCode :: nat
  stdout :: "string list"

definition party :: string where
  "party = [CHR 0xF0, CHR 0x9F, CHR 0x8E, CHR 0x89]"


text \<open>A string that may be undefined, used as a condition.\<close>

fun truthy :: "string option \<Rightarrow> bool" where
  "truthy None = False"
| "truthy (Some s) = (s \<noteq> [])"




section \<open>ContractService: the read-only queries\<close>

text \<open>
  An item as the contract call returns it (numbers are \<open>bigint\<close>) and as the service
  returns it. \<open>Number\<close> is JavaScript's conversion of a \<open>bigint\<close> to a number, a
  parameter; \<open>toString()\<close> of a \<open>bigint\<close> is its decimal form.
\<close>

record raw_item =
  raw_itemId :: nat
  raw_title :: string
  raw_description :: string
  raw_blobId :: string
  raw_owner :: string
  raw_price :: nat
  raw_rentalPrice :: nat
  raw_isActive :: bool
  raw_createdAt :: nat
  raw_totalRentals :: nat
  raw_totalRevenue :: nat

record 'n IPItem =
  ip_itemId :: 'n
  ip_title :: string
  ip_description :: string
  ip_blobId :: string
  ip_owner :: string
  ip_price :: string
  ip_rentalPrice :: string
  ip_isActive :: bool
  ip_createdAt :: 'n
  ip_totalRentals :: 'n
  ip_totalRevenue :: string

text \<open>The calls on \<open>this.contract\<close>: each resolves to a value or rejects.\<close>

record chain =
  c_getActiveItems :: "int \<Rightarrow> int \<Rightarrow> error + raw_item list"
  c_getUserItems :: "string \<Rightarrow> error + nat list"
  c_getUserRentals :: "string \<Rightarrow> error + nat list"
  c_getItemRenters :: "int \<Rightarrow> error + string list"
  c_hasActiveRental :: "int \<Rightarrow> string \<Rightarrow> error + bool"
  c_getTotalItems :: "error + nat"
  c_getTotalRentals :: "error + nat"

definition toIPItem :: "(nat \<Rightarrow> 'n) \<Rightarrow> raw_item \<Rightarrow> 'n IPItem" where
  "toIPItem Number item =
     \<lparr>ip_itemId = Number (raw_itemId item),
      ip_title = raw_title item,
      ip_description = raw_description item,
      ip_blobId = raw_blobId item,
      ip_owner = raw_owner item,
      ip_price = show_nat (raw_price item),
      ip_rentalPrice = show_nat (raw_rentalPrice item),
      ip_isActive = raw_isActive item,
      ip_createdAt = Number (raw_createdAt item),
      ip_totalRentals = Number (raw_totalRentals item),
      ip_totalRevenue = show_nat (raw_totalRevenue item)\<rparr>"

text \<open>\<open>getActiveItems(offset = 0, limit = 20)\<close>: \<open>None\<close> is an omitted argument.\<close>

definition getActiveItems ::
  "(nat \<Rightarrow> 'n) \<Rightarrow> chain \<Rightarrow> int option \<Rightarrow> int option \<Rightarrow> error + 'n IPItem list" where
  "getActiveItems Number contract offset limit =
     (case c_getActiveItems contract (case offset of None \<Rightarrow> 0 | Some x \<Rightarrow> x)
                                     (case limit of None \<Rightarrow> 20 | Some x \<Rightarrow> x) of
        Inr items \<Rightarrow> Inr (map (toIPItem Number) items)
      | Inl e \<Rightarrow> Inr [])"

definition getUserItems :: "(nat \<Rightarrow> 'n) \<Rightarrow> chain \<Rightarrow> string \<Rightarrow> error + 'n list" where
  "getUserItems Number contract userAddress =
     (case c_getUserItems contract userAddress of
        Inr itemIds \<Rightarrow> Inr (map Number itemIds)
      | Inl e \<Rightarrow> Inr [])"

definition getUserRentals :: "(nat \<Rightarrow> 'n) \<Rightarrow> chain \<Rightarrow> string \<Rightarrow> error + 'n list" where
  "getUserRentals Number contract userAddress =
     (case c_getUserRentals contract userAddress of
        Inr rentalIds \<Rightarrow> Inr (map Number rentalIds)
      | Inl e \<Rightarrow> Inr [])"

text \<open>For contrast, a query without \<open>try\<close>: the rejection is the method's.\<close>

definition getItemRenters :: "chain \<Rightarrow> int \<Rightarrow> error + string list" where
  "getItemRenters contract itemId = c_getItemRenters contract itemId"

definition hasActiveRental :: "chain \<Rightarrow> int \<Rightarrow> string \<Rightarrow> error + bool" where
  "hasActiveRental contract itemId userAddress =
     (case c_hasActiveRental contract itemId userAddress of
        Inr result \<Rightarrow> Inr result
      | Inl e \<Rightarrow> Inr False)"

definition getTotalItems :: "(nat \<Rightarrow> 'n::zero) \<Rightarrow> chain \<Rightarrow> error + 'n" where
  "getTotalItems Number contract =
     (case c_getTotalItems contract of
        Inr total' \<Rightarrow> Inr (Number total')
      | Inl e \<Rightarrow> Inr 0)"

definition getTotalRentals :: "(nat \<Rightarrow> 'n::zero) \<Rightarrow> chain \<Rightarrow> error + 'n" where
  "getTotalRentals Number contract =
     (case c_getTotalRentals contract of
        Inr total' \<Rightarrow> Inr (Number total')
      | Inl e \<Rightarrow> Inr 0)"

section \<open>Concrete worlds for evaluation\<close>

text \<open>
  \<open>path.join\<close> of a POSIX system: the non-empty arguments are joined with \<open>/\<close> and
  the result is normalised (\<open>.\<close> and empty segments dropped, \<open>..\<close> resolved against
  the segment before it, a trailing \<open>/\<close> kept).
\<close>

fun join_with :: "string \<Rightarrow> string list \<Rightarrow> string" where
  "join_with sep [] = []"
| "join_with sep [x] = x"
| "join_with sep (x # y # ys) = x @ sep @ join_with sep (y # ys)"

fun normalize_segments :: "bool \<Rightarrow> string list \<Rightarrow> string list \<Rightarrow> string list" where
  "normalize_segments allowAboveRoot acc [] = rev acc"
| "normalize_segments allowAboveRoot acc (seg # segs) =
     (if seg = [] \<or> seg = ''.'' then normalize_segments allowAboveRoot acc segs
      else if seg = ''..'' then
        (case acc of
           [] \<Rightarrow>
             normalize_segments allowAboveRoot (if allowAboveRoot then [''..''] else []) segs
         | a # as \<Rightarrow>
             (if a = ''..'' then
                normalize_segments allowAboveRoot
                  (if allowAboveRoot then ''..'' # acc else acc) segs
              else normalize_segments allowAboveRoot as segs))
      else normalize_segments allowAboveRoot (seg # acc) segs)"

definition posix_normalize :: "string \<Rightarrow> string" where
  "posix_normalize path =
     (if path = [] then ''.''
      else
        (let isAbsolute = (hd path = CHR ''/'');
             trailingSeparator = (last path = CHR ''/'');
             inner = join_with ''/''
                       (normalize_segments (\<not> isAbsolute) [] (split_on (CHR ''/'') path))
         in if inner = [] then
              (if isAbsolute then ''/'' else if trailingSeparator then ''./'' else ''.'')
            else (if isAbsolute then ''/'' else []) @ inner @
                 (if trailingSeparator then ''/'' else [])))"

definition posix_join :: "string list \<Rightarrow> string" where
  "posix_join args =
     (let joined = join_with ''/'' (filter (\<lambda>arg. arg \<noteq> []) args)
      in if joined = [] then ''.'' else posix_normalize joined)"

text \<open>
  The header values a \<open>Headers\<close> object accepts: no NUL, LF or CR, and no code point
  above U+00FF (in UTF-8, no lead byte from \<open>0xC4\<close> on).
\<close>

definition header_value_ok :: "string \<Rightarrow> bool" where
  "header_value_ok v =
     list_all (\<lambda>c. c \<noteq> CHR 0x00 \<and> c \<noteq> CHR 0x0A \<and> c \<noteq> CHR 0x0D \<and> (of_char c :: nat) < 0xC4) v"

text \<open>
  A scripted world: \<open>writeBlob\<close> and \<open>readBlob\<close> answer with the next outcome of a
  list (and reject once it is used up), \<open>reset\<close> is counted, files are an association
  list.
\<close>

record sim =
  write_outcomes :: "(error + write_result) list"
  read_outcomes :: "(error + bytes) list"
  sim_files :: "(string \<times> bytes) list"
  resets :: nat

definition scripted :: "sim sys" where
  "scripted =
     \<lparr>writeBlob = (\<lambda>s b. case write_outcomes s of
                             [] \<Rightarrow> (Inl (SdkError ''no response''), s)
                           | x # xs \<Rightarrow> (x, s\<lparr>write_outcomes := xs\<rparr>)),
      readBlob = (\<lambda>s i. case read_outcomes s of
                            [] \<Rightarrow> (Inl (SdkError ''no response''), s)
                          | x # xs \<Rightarrow> (x, s\<lparr>read_outcomes := xs\<rparr>)),
      getBlob = (\<lambda>s i. (Inr (), s)),
      reset = (\<lambda>s. s\<lparr>resets := Suc (resets s)\<rparr>),
      readFileSync = (\<lambda>s p. case map_of (sim_files s) p of
                                None \<Rightarrow> Inl (FsError ''ENOENT'')
                              | Some b \<Rightarrow> Inr b),
      writeFileSync = (\<lambda>s p b. (Inr (), s\<lparr>sim_files := (p, b) # sim_files s\<rparr>)),
      path_join = posix_join\<rparr>"

text \<open>
  A healthy storage network: \<open>writeBlob\<close> stores the bytes it is given under a new
  identifier \<open>mkid n\<close>, \<open>readBlob\<close> returns what is stored.
\<close>

record store =
  blobs :: "(string \<times> bytes) list"
  issued :: nat
  store_files :: "(string \<times> bytes) list"

definition healthy :: "(nat \<Rightarrow> string) \<Rightarrow> store sys" where
  "healthy mkid =
     \<lparr>writeBlob = (\<lambda>s b. (Inr \<lparr>result_blobId = mkid (issued s)\<rparr>,
                           s\<lparr>blobs := (mkid (issued s), b) # blobs s, issued := Suc (issued s)\<rparr>)),
      readBlob = (\<lambda>s i. case map_of (blobs s) i of
                            None \<Rightarrow> (Inl (SdkError ''blob not found''), s)
                          | Some b \<Rightarrow> (Inr b, s)),
      getBlob = (\<lambda>s i. case map_of (blobs s) i of
                           None \<Rightarrow> (Inl (SdkError ''blob not found''), s)
                         | Some b \<Rightarrow> (Inr (), s)),
      reset = (\<lambda>s. s),
      readFileSync = (\<lambda>s p. case map_of (store_files s) p of
                                None \<Rightarrow> Inl (FsError ''ENOENT'')
                              | Some b \<Rightarrow> Inr b),
      writeFileSync = (\<lambda>s p b. (Inr (), s\<lparr>store_files := (p, b) # store_files s\<rparr>)),
      path_join = posix_join\<rparr>"

text \<open>A host for the library: one fixed outcome of the child process, a clock, a random string.\<close>

record hsim =
  exec_outcome :: "error + string \<times> string"
  hfiles :: "(string \<times> bytes) list"
  write_ok :: bool
  clock :: nat
  rnd :: string

definition sim_host :: "hsim host" where
  "sim_host =
     \<lparr>execAsync = (\<lambda>s cmd. (exec_outcome s, s)),
      host_writeFileSync = (\<lambda>s p b. if write_ok s then (Inr (), s\<lparr>hfiles := (p, b) # hfiles s\<rparr>)
                                     else (Inl (FsError ''EACCES''), s)),
      host_readFileSync = (\<lambda>s p. case map_of (hfiles s) p of
                                     None \<Rightarrow> Inl (FsError ''ENOENT'')
                                   | Some b \<Rightarrow> Inr b),
      unlinkSync = (\<lambda>s p. s\<lparr>hfiles := filter (\<lambda>(q, b). q \<noteq> p) (hfiles s)\<rparr>),
      mkdirSync = (\<lambda>s p. s),
      dateNow = clock,
      mathRandom36 = (\<lambda>s. (rnd s, s)),
      cwd = ''/app'',
      host_path_join = posix_join,
      headerValueOk = header_value_ok\<rparr>"












text \<open>
  Two runs of the scripted world: three retryable rejections followed by an answer that
  would succeed, and a rejection that is not retryable followed by a success.
\<close>

definition three_retryable :: sim where
  "three_retryable =
     \<lparr>write_outcomes =
        [Inl (RetryableWalrusClientError ''a''), Inl (RetryableWalrusClientError ''b''),
         Inl (RetryableWalrusClientError ''c''), Inr \<lparr>result_blobId = ''late''\<rparr>],
      read_outcomes = [], sim_files = [], resets = 0\<rparr>"

definition terminal_then_ok :: sim where
  "terminal_then_ok =
     \<lparr>write_outcomes = [Inl (SdkError ''bad request''), Inr \<lparr>result_blobId = ''blob-1''\<rparr>],
      read_outcomes = [], sim_files = [], resets = 0\<rparr>"

text \<open>A world in which every \<open>readBlob\<close> is rejected with a retryable error.\<close>

definition unreachable :: sim where
  "unreachable =
     \<lparr>write_outcomes = [],
      read_outcomes =
        [Inl (RetryableWalrusClientError ''timeout''), Inl (RetryableWalrusClientError ''timeout''),
         Inl (RetryableWalrusClientError ''timeout''), Inl (RetryableWalrusClientError ''timeout'')],
      sim_files = [], resets = 0\<rparr>"

text \<open>
  Two hosts for the library. In \<open>host_down\<close> the child process fails; in \<open>host_up\<close> it
  prints the line of a finished download and the file it names exists.
\<close>

definition host_down :: hsim where
  "host_down =
     \<lparr>exec_outcome = Inl (ExecError ''Command failed''), hfiles = [], write_ok = True,
      clock = 1700000000000, rnd = ''0.k3j9x8q2mzp''\<rparr>"

definition host_up :: hsim where
  "host_up =
     \<lparr>exec_outcome =
        Inr (''File saved to: /app/scripts/downloaded-abc.bin'' @ [newline], []),
      hfiles = [(''/app/scripts/downloaded-abc.bin'', [1, 2, 3])], write_ok = True,
      clock = 1700000000000, rnd = ''0.k3j9x8q2mzp''\<rparr>"

text \<open>
  A world for the combined script: the file exists, the upload succeeds at once, every
  retrieval is rejected.
\<close>

definition stored_but_unreadable :: sim where
  "stored_but_unreadable =
     \<lparr>write_outcomes = [Inr \<lparr>result_blobId = ''blob-1''\<rparr>],
      read_outcomes =
        [Inl (SdkError ''not enough slivers''), Inl (SdkError ''not enough slivers''),
         Inl (SdkError ''not enough slivers'')],
      sim_files = [(''./test.pdf'', [37, 80, 68, 70])], resets = 0\<rparr>"

text \<open>
  Two more hosts: in \<open>host_readonly\<close> no file can be written; in \<open>host_uploaded\<close> the
  child process prints the line of a finished upload.
\<close>

definition host_readonly :: hsim where
  "host_readonly = host_down\<lparr>write_ok := False\<rparr>"

definition host_uploaded :: hsim where
  "host_uploaded =
     host_down\<lparr>exec_outcome := Inr (''Blob ID: abc'' @ [newline], [])\<rparr>"










text \<open>A healthy store holding one file to upload, with identifiers \<open>blob-<n>\<close>.\<close>

definition mkid :: "nat \<Rightarrow> string" where
  "mkid n = ''blob-'' @ show_nat n"

definition one_file :: store where
  "one_file = \<lparr>blobs = [], issued = 7, store_files = [(''/tmp/in.bin'', [1, 2, 3, 4, 5])]\<rparr>"


text \<open>
  Two contracts for evaluation: one whose every call is rejected, and one whose state is
  empty. \<open>exact\<close> is \<open>Number\<close> on values it represents exactly.
\<close>

definition rpc_down :: chain where
  "rpc_down =
     \<lparr>c_getActiveItems = (\<lambda>offset limit. Inl (SdkError ''could not detect network'')),
      c_getUserItems = (\<lambda>a. Inl (SdkError ''could not detect network'')),
      c_getUserRentals = (\<lambda>a. Inl (SdkError ''could not detect network'')),
      c_getItemRenters = (\<lambda>i. Inl (SdkError ''could not detect network'')),
      c_hasActiveRental = (\<lambda>i a. Inl (SdkError ''could not detect network'')),
      c_getTotalItems = Inl (SdkError ''could not detect network''),
      c_getTotalRentals = Inl (SdkError ''could not detect network'')\<rparr>"

definition empty_chain :: chain where
  "empty_chain =
     \<lparr>c_getActiveItems = (\<lambda>offset limit. Inr []),
      c_getUserItems = (\<lambda>a. Inr []),
      c_getUserRentals = (\<lambda>a. Inr []),
      c_getItemRenters = (\<lambda>i. Inr []),
      c_hasActiveRental = (\<lambda>i a. Inr False),
      c_getTotalItems = Inr 0,
      c_getTotalRentals = Inr 0\<rparr>"

definition exact :: "nat \<Rightarrow> nat" where
  "exact n = n"


text \<open>A world in which the first read is rejected and the second returns three bytes.\<close>

definition second_read_ok :: sim where
  "second_read_ok =
     \<lparr>write_outcomes = [],
      read_outcomes = [Inl (SdkError ''not enough slivers''), Inr [1, 2, 3]],
      sim_files = [], resets = 0\<rparr>"

section \<open>Facts about the upload loop\<close>

declare upload_loop.simps [simp del] retrieval_loop.simps [simp del] attempt_loop.simps [simp del]
  strip_front.simps [simp del]
  show_nat.simps [simp del]

lemma effects_simps [simp]:
  "outcome_of (a, s, evs) = a" "state_of (a, s, evs) = s" "effects_of (a, s, evs) = evs"
  by (simp_all add: outcome_of_def state_of_def effects_of_def)

lemma sleeps_append: "sleeps (xs @ ys) = sleeps xs @ sleeps ys"
  by (induction xs rule: sleeps.induct) simp_all

lemma writes_simps:
  "writes [] = 0"
  "writes (e # es) = (if isWrite e then Suc (writes es) else writes es)"
  "writes (xs @ ys) = writes xs + writes ys"
  by (simp_all add: writes_def)

lemma reads_simps:
  "reads [] = 0"
  "reads (e # es) = (if isRead e then Suc (reads es) else reads es)"
  "reads (xs @ ys) = reads xs + reads ys"
  by (simp_all add: reads_def)

lemma upload_loop_done:
  "\<not> attempts < maxAttempts \<Longrightarrow> upload_loop w blob attempts s = (None, s, [])"
  by (simp add: upload_loop.simps)

lemma upload_loop_ok:
  "attempts < maxAttempts \<Longrightarrow> writeBlob w s blob = (Inr r, s1) \<Longrightarrow>
   upload_loop w blob attempts s = (Some r, s1, [WriteBlob blob])"
  by (simp add: upload_loop.simps)

lemma upload_loop_fail:
  assumes "attempts < maxAttempts" and "writeBlob w s blob = (Inl e, s1)"
    and "s2 = (if isRetryable e then reset w s1 else s1)"
    and "rest = upload_loop w blob (attempts + 1) s2"
  shows "upload_loop w blob attempts s =
     (outcome_of rest, state_of rest,
      WriteBlob blob # (if isRetryable e then [Reset] else []) @
        (if attempts + 1 < maxAttempts then [Sleep ((attempts + 1) * 3000)] else []) @
        effects_of rest)"
  using assms by (subst upload_loop.simps) (simp add: Let_def split: prod.splits)

lemma upload_loop_writes_pos:
  assumes lt: "attempts < maxAttempts"
  shows "0 < writes (effects_of (upload_loop w blob attempts s))"
proof -
  obtain o1 s1 where w1: "writeBlob w s blob = (o1, s1)" by (cases "writeBlob w s blob")
  show ?thesis
  proof (cases o1)
    case (Inr r)
    with lt w1 show ?thesis by (simp add: upload_loop_ok writes_simps)
  next
    case (Inl e)
    with lt w1 show ?thesis
      by (simp add: upload_loop_fail [OF lt _ refl refl] writes_simps)
  qed
qed

lemma upload_loop_first_effect:
  assumes lt: "attempts < maxAttempts"
  shows "\<exists>rest. effects_of (upload_loop w blob attempts s) = WriteBlob blob # rest"
proof -
  obtain o1 s1 where w1: "writeBlob w s blob = (o1, s1)" by (cases "writeBlob w s blob")
  show ?thesis
  proof (cases o1)
    case (Inr r)
    with lt w1 show ?thesis by (simp add: upload_loop_ok)
  next
    case (Inl e)
    with lt w1 show ?thesis
      by (simp add: upload_loop_fail [OF lt _ refl refl])
  qed
qed

lemma upload_loop_writes_le:
  "writes (effects_of (upload_loop w blob attempts s)) \<le> maxAttempts - attempts"
proof (induction "maxAttempts - attempts" arbitrary: attempts s)
  case 0
  then show ?case by (simp add: upload_loop_done writes_simps)
next
  case (Suc n)
  then have lt: "attempts < maxAttempts" by simp
  obtain o1 s1 where w1: "writeBlob w s blob = (o1, s1)" by (cases "writeBlob w s blob")
  show ?case
  proof (cases o1)
    case (Inr r)
    with lt w1 show ?thesis by (simp add: upload_loop_ok writes_simps)
  next
    case (Inl e)
    define s2 where "s2 = (if isRetryable e then reset w s1 else s1)"
    define rest where "rest = upload_loop w blob (attempts + 1) s2"
    have "n = maxAttempts - (attempts + 1)" using Suc.hyps(2) by simp
    then have "writes (effects_of rest) \<le> maxAttempts - (attempts + 1)"
      unfolding rest_def by (rule Suc.hyps(1))
    with lt show ?thesis
      using upload_loop_fail [OF lt w1 [unfolded Inl] s2_def rest_def]
      by (simp add: writes_simps)
  qed
qed

lemma upload_loop_sleeps:
  "sleeps (effects_of (upload_loop w blob attempts s)) =
     map (\<lambda>i. i * 3000) [attempts + 1 ..< attempts + writes (effects_of (upload_loop w blob attempts s))]"
proof (induction "maxAttempts - attempts" arbitrary: attempts s)
  case 0
  then show ?case by (simp add: upload_loop_done writes_simps)
next
  case (Suc n)
  then have lt: "attempts < maxAttempts" by simp
  obtain o1 s1 where w1: "writeBlob w s blob = (o1, s1)" by (cases "writeBlob w s blob")
  show ?case
  proof (cases o1)
    case (Inr r)
    with lt w1 show ?thesis by (simp add: upload_loop_ok writes_simps)
  next
    case (Inl e)
    define s2 where "s2 = (if isRetryable e then reset w s1 else s1)"
    define rest where "rest = upload_loop w blob (attempts + 1) s2"
    note step = upload_loop_fail [OF lt w1 [unfolded Inl] s2_def rest_def]
    have "n = maxAttempts - (attempts + 1)" using Suc.hyps(2) by simp
    then have ih: "sleeps (effects_of rest) =
        map (\<lambda>i. i * 3000) [attempts + 1 + 1 ..< attempts + 1 + writes (effects_of rest)]"
      unfolding rest_def by (rule Suc.hyps(1))
    show ?thesis
    proof (cases "attempts + 1 < maxAttempts")
      case True
      then have "0 < writes (effects_of rest)"
        unfolding rest_def by (rule upload_loop_writes_pos)
      then have "[attempts + 1 ..< attempts + 1 + writes (effects_of rest)] =
                 (attempts + 1) # [attempts + 1 + 1 ..< attempts + 1 + writes (effects_of rest)]"
        by (simp add: upt_conv_Cons del: upt_Suc)
      with True ih show ?thesis
        by (simp add: step writes_simps sleeps_append del: upt_Suc)
    next
      case False
      then have "rest = (None, s2, [])"
        unfolding rest_def by (rule upload_loop_done)
      with False show ?thesis
        by (simp add: step writes_simps sleeps_append)
    qed
  qed
qed

lemma upload_loop_None:
  "attempts \<le> maxAttempts \<Longrightarrow> outcome_of (upload_loop w blob attempts s) = None \<Longrightarrow>
   writes (effects_of (upload_loop w blob attempts s)) = maxAttempts - attempts"
proof (induction "maxAttempts - attempts" arbitrary: attempts s)
  case 0
  then show ?case by (simp add: upload_loop_done writes_simps)
next
  case (Suc n)
  then have lt: "attempts < maxAttempts" by simp
  obtain o1 s1 where w1: "writeBlob w s blob = (o1, s1)" by (cases "writeBlob w s blob")
  show ?case
  proof (cases o1)
    case (Inr r)
    with lt w1 Suc.prems show ?thesis by (simp add: upload_loop_ok)
  next
    case (Inl e)
    define s2 where "s2 = (if isRetryable e then reset w s1 else s1)"
    define rest where "rest = upload_loop w blob (attempts + 1) s2"
    note step = upload_loop_fail [OF lt w1 [unfolded Inl] s2_def rest_def]
    have n: "n = maxAttempts - (attempts + 1)" using Suc.hyps(2) by simp
    have le: "attempts + 1 \<le> maxAttempts" using lt by simp
    have "outcome_of (upload_loop w blob (attempts + 1) s2) = None"
      using Suc.prems(2) by (simp add: step rest_def)
    with n le have "writes (effects_of rest) = maxAttempts - (attempts + 1)"
      unfolding rest_def by (rule Suc.hyps(1))
    with lt show ?thesis
      by (auto simp: step writes_simps)
  qed
qed

lemma upload_loop_schedule:
  "attempts < maxAttempts \<Longrightarrow>
   filter (\<lambda>e. e \<noteq> Reset) (effects_of (upload_loop w blob attempts s)) =
     WriteBlob blob #
       concat (map (\<lambda>i. [Sleep (i * 3000), WriteBlob blob])
         [attempts + 1 ..< attempts + writes (effects_of (upload_loop w blob attempts s))])"
proof (induction "maxAttempts - attempts" arbitrary: attempts s)
  case 0
  then show ?case by simp
next
  case (Suc n)
  then have lt: "attempts < maxAttempts" by simp
  obtain o1 s1 where w1: "writeBlob w s blob = (o1, s1)" by (cases "writeBlob w s blob")
  show ?case
  proof (cases o1)
    case (Inr r)
    with lt w1 show ?thesis by (simp add: upload_loop_ok writes_simps)
  next
    case (Inl e)
    define s2 where "s2 = (if isRetryable e then reset w s1 else s1)"
    define rest where "rest = upload_loop w blob (attempts + 1) s2"
    note step = upload_loop_fail [OF lt w1 [unfolded Inl] s2_def rest_def]
    show ?thesis
    proof (cases "attempts + 1 < maxAttempts")
      case True
      have "n = maxAttempts - (attempts + 1)" using Suc.hyps(2) by simp
      from Suc.hyps(1) [OF this True, of s2]
      have ih: "filter (\<lambda>e. e \<noteq> Reset) (effects_of rest) =
          WriteBlob blob #
            concat (map (\<lambda>i. [Sleep (i * 3000), WriteBlob blob])
              [attempts + 1 + 1 ..< attempts + 1 + writes (effects_of rest)])"
        unfolding rest_def .
      have "0 < writes (effects_of rest)"
        unfolding rest_def using True by (rule upload_loop_writes_pos)
      then have "[attempts + 1 ..< attempts + 1 + writes (effects_of rest)] =
                 (attempts + 1) # [attempts + 1 + 1 ..< attempts + 1 + writes (effects_of rest)]"
        by (simp add: upt_conv_Cons del: upt_Suc)
      with True ih show ?thesis
        by (simp add: step writes_simps del: upt_Suc)
    next
      case False
      then have "rest = (None, s2, [])"
        unfolding rest_def by (rule upload_loop_done)
      with False show ?thesis
        by (simp add: step writes_simps)
    qed
  qed
qed

section \<open>Facts about the retrieval loops\<close>

lemma try_retrieve_effects:
  "reads (effects_of (try_retrieve w blobId outPath s)) = 1"
  "sleeps (effects_of (try_retrieve w blobId outPath s)) = []"
  "writes (effects_of (try_retrieve w blobId outPath s)) = 0"
  by (auto simp: try_retrieve_def reads_simps writes_simps split: prod.splits sum.splits)

lemma retrieval_loop_done:
  "\<not> n < maxRetrievalAttempts \<Longrightarrow> retrieval_loop w blobId n s = (None, s, [])"
  by (simp add: retrieval_loop.simps)

lemma retrieval_loop_ok:
  "n < maxRetrievalAttempts \<Longrightarrow> try_retrieve w blobId ''downloaded_clean.pdf'' s = (Inr c, s1, ev) \<Longrightarrow>
   retrieval_loop w blobId n s = (Some c, s1, ev)"
  by (simp add: retrieval_loop.simps)

lemma retrieval_loop_fail:
  assumes "n < maxRetrievalAttempts"
    and "try_retrieve w blobId ''downloaded_clean.pdf'' s = (Inl e, s1, ev)"
    and "s2 = (if isRetryable e then reset w s1 else s1)"
    and "rest = retrieval_loop w blobId (n + 1) s2"
  shows "retrieval_loop w blobId n s =
     (outcome_of rest, state_of rest,
      ev @ (if isRetryable e then [Reset] else []) @
        (if n + 1 < maxRetrievalAttempts then [Sleep ((n + 1) * 5000)] else []) @
        effects_of rest)"
  using assms by (subst retrieval_loop.simps) (simp add: Let_def split: prod.splits)

lemma try_retrieve_cases:
  obtains (ok) c s1 ev where "try_retrieve w blobId outPath s = (Inr c, s1, ev)"
    "reads ev = 1" "sleeps ev = []" "writes ev = 0"
  | (fail) e s1 ev where "try_retrieve w blobId outPath s = (Inl e, s1, ev)"
    "reads ev = 1" "sleeps ev = []" "writes ev = 0"
proof -
  obtain r s1 ev where eq: "try_retrieve w blobId outPath s = (r, s1, ev)"
    by (cases "try_retrieve w blobId outPath s")
  have "reads ev = 1" "sleeps ev = []" "writes ev = 0"
    using try_retrieve_effects [of w blobId outPath s] by (simp_all add: eq)
  with eq ok fail show thesis by (cases r) auto
qed

lemma retrieval_loop_reads_pos:
  assumes lt: "n < maxRetrievalAttempts"
  shows "0 < reads (effects_of (retrieval_loop w blobId n s))"
proof (cases rule: try_retrieve_cases [of w blobId "''downloaded_clean.pdf''" s])
  case (ok c s1 ev)
  with lt show ?thesis by (simp add: retrieval_loop_ok)
next
  case (fail e s1 ev)
  with lt show ?thesis
    by (simp add: retrieval_loop_fail [OF lt fail(1) refl refl] reads_simps)
qed

lemma retrieval_loop_reads_le:
  "reads (effects_of (retrieval_loop w blobId n s)) \<le> maxRetrievalAttempts - n"
proof (induction "maxRetrievalAttempts - n" arbitrary: n s)
  case 0
  then show ?case by (simp add: retrieval_loop_done reads_simps)
next
  case (Suc k)
  then have lt: "n < maxRetrievalAttempts" by simp
  show ?case
  proof (cases rule: try_retrieve_cases [of w blobId "''downloaded_clean.pdf''" s])
    case (ok c s1 ev)
    with lt show ?thesis by (simp add: retrieval_loop_ok)
  next
    case (fail e s1 ev)
    define s2 where "s2 = (if isRetryable e then reset w s1 else s1)"
    define rest where "rest = retrieval_loop w blobId (n + 1) s2"
    have "k = maxRetrievalAttempts - (n + 1)" using Suc.hyps(2) by simp
    then have "reads (effects_of rest) \<le> maxRetrievalAttempts - (n + 1)"
      unfolding rest_def by (rule Suc.hyps(1))
    with lt fail show ?thesis
      by (simp add: retrieval_loop_fail [OF lt fail(1) s2_def rest_def] reads_simps)
  qed
qed

lemma retrieval_loop_writes:
  "writes (effects_of (retrieval_loop w blobId n s)) = 0"
proof (induction "maxRetrievalAttempts - n" arbitrary: n s)
  case 0
  then show ?case by (simp add: retrieval_loop_done writes_simps)
next
  case (Suc k)
  then have lt: "n < maxRetrievalAttempts" by simp
  show ?case
  proof (cases rule: try_retrieve_cases [of w blobId "''downloaded_clean.pdf''" s])
    case (ok c s1 ev)
    with lt show ?thesis by (simp add: retrieval_loop_ok)
  next
    case (fail e s1 ev)
    define s2 where "s2 = (if isRetryable e then reset w s1 else s1)"
    define rest where "rest = retrieval_loop w blobId (n + 1) s2"
    have "k = maxRetrievalAttempts - (n + 1)" using Suc.hyps(2) by simp
    then have "writes (effects_of rest) = 0"
      unfolding rest_def by (rule Suc.hyps(1))
    with lt fail show ?thesis
      by (simp add: retrieval_loop_fail [OF lt fail(1) s2_def rest_def] writes_simps)
  qed
qed

lemma retrieval_loop_sleeps:
  "sleeps (effects_of (retrieval_loop w blobId n s)) =
     map (\<lambda>i. i * 5000) [n + 1 ..< n + reads (effects_of (retrieval_loop w blobId n s))]"
proof (induction "maxRetrievalAttempts - n" arbitrary: n s)
  case 0
  then show ?case by (simp add: retrieval_loop_done reads_simps)
next
  case (Suc k)
  then have lt: "n < maxRetrievalAttempts" by simp
  show ?case
  proof (cases rule: try_retrieve_cases [of w blobId "''downloaded_clean.pdf''" s])
    case (ok c s1 ev)
    with lt show ?thesis by (simp add: retrieval_loop_ok)
  next
    case (fail e s1 ev)
    define s2 where "s2 = (if isRetryable e then reset w s1 else s1)"
    define rest where "rest = retrieval_loop w blobId (n + 1) s2"
    note step = retrieval_loop_fail [OF lt fail(1) s2_def rest_def]
    have "k = maxRetrievalAttempts - (n + 1)" using Suc.hyps(2) by simp
    then have ih: "sleeps (effects_of rest) =
        map (\<lambda>i. i * 5000) [n + 1 + 1 ..< n + 1 + reads (effects_of rest)]"
      unfolding rest_def by (rule Suc.hyps(1))
    show ?thesis
    proof (cases "n + 1 < maxRetrievalAttempts")
      case True
      then have "0 < reads (effects_of rest)"
        unfolding rest_def by (rule retrieval_loop_reads_pos)
      then have "[n + 1 ..< n + 1 + reads (effects_of rest)] =
                 (n + 1) # [n + 1 + 1 ..< n + 1 + reads (effects_of rest)]"
        by (simp add: upt_conv_Cons del: upt_Suc)
      with True ih fail show ?thesis
        by (simp add: step reads_simps sleeps_append del: upt_Suc)
    next
      case False
      then have "rest = (None, s2, [])"
        unfolding rest_def by (rule retrieval_loop_done)
      with False fail show ?thesis
        by (simp add: step reads_simps sleeps_append)
    qed
  qed
qed

lemma attempt_loop_done:
  "\<not> n < maxRetrievalAttempts_standalone \<Longrightarrow> attempt_loop w blobId n s = (Inr (), s, [])"
  by (simp add: attempt_loop.simps)

lemma attempt_loop_ok:
  "n < maxRetrievalAttempts_standalone \<Longrightarrow>
   try_retrieve w blobId ''downloaded_test.pdf'' s = (Inr c, s1, ev) \<Longrightarrow>
   attempt_loop w blobId n s = (Inr (), s1, ev)"
  by (simp add: attempt_loop.simps)

lemma attempt_loop_retry:
  assumes "n + 1 < maxRetrievalAttempts_standalone"
    and "try_retrieve w blobId ''downloaded_test.pdf'' s = (Inl e, s1, ev)"
    and "s2 = (if isRetryable e then reset w s1 else s1)"
    and "rest = attempt_loop w blobId (n + 1) s2"
  shows "attempt_loop w blobId n s =
     (outcome_of rest, state_of rest,
      ev @ (if isRetryable e then [Reset] else []) @ [Sleep ((n + 1) * 3000)] @ effects_of rest)"
  using assms by (subst attempt_loop.simps) (simp add: Let_def split: prod.splits)

lemma attempt_loop_throw:
  assumes "n < maxRetrievalAttempts_standalone" and "\<not> n + 1 < maxRetrievalAttempts_standalone"
    and "try_retrieve w blobId ''downloaded_test.pdf'' s = (Inl e, s1, ev)"
  shows "attempt_loop w blobId n s =
     (Inl (Error (''All retrieval attempts failed for blob ID: '' @ blobId)),
      (if isRetryable e then reset w s1 else s1),
      ev @ (if isRetryable e then [Reset] else []))"
  using assms by (subst attempt_loop.simps) (simp add: Let_def split: prod.splits)

lemma attempt_loop_reads_pos:
  assumes lt: "n < maxRetrievalAttempts_standalone"
  shows "0 < reads (effects_of (attempt_loop w blobId n s))"
proof (cases rule: try_retrieve_cases [of w blobId "''downloaded_test.pdf''" s])
  case (ok c s1 ev)
  with lt show ?thesis by (simp add: attempt_loop_ok)
next
  case (fail e s1 ev)
  show ?thesis
  proof (cases "n + 1 < maxRetrievalAttempts_standalone")
    case True
    with fail show ?thesis
      by (simp add: attempt_loop_retry [OF True fail(1) refl refl] reads_simps)
  next
    case False
    with fail show ?thesis
      by (simp add: attempt_loop_throw [OF lt False fail(1)] reads_simps)
  qed
qed

lemma attempt_loop_reads_le:
  "reads (effects_of (attempt_loop w blobId n s)) \<le> maxRetrievalAttempts_standalone - n"
proof (induction "maxRetrievalAttempts_standalone - n" arbitrary: n s)
  case 0
  then show ?case by (simp add: attempt_loop_done reads_simps)
next
  case (Suc k)
  then have lt: "n < maxRetrievalAttempts_standalone" by simp
  show ?case
  proof (cases rule: try_retrieve_cases [of w blobId "''downloaded_test.pdf''" s])
    case (ok c s1 ev)
    with lt show ?thesis by (simp add: attempt_loop_ok)
  next
    case (fail e s1 ev)
    show ?thesis
    proof (cases "n + 1 < maxRetrievalAttempts_standalone")
      case True
      define s2 where "s2 = (if isRetryable e then reset w s1 else s1)"
      define rest where "rest = attempt_loop w blobId (n + 1) s2"
      have "k = maxRetrievalAttempts_standalone - (n + 1)" using Suc.hyps(2) by simp
      then have "reads (effects_of rest) \<le> maxRetrievalAttempts_standalone - (n + 1)"
        unfolding rest_def by (rule Suc.hyps(1))
      with True fail show ?thesis
        by (simp add: attempt_loop_retry [OF True fail(1) s2_def rest_def] reads_simps)
    next
      case False
      with lt fail show ?thesis
        by (simp add: attempt_loop_throw [OF lt False fail(1)] reads_simps)
    qed
  qed
qed

lemma attempt_loop_sleeps:
  "sleeps (effects_of (attempt_loop w blobId n s)) =
     map (\<lambda>i. i * 3000) [n + 1 ..< n + reads (effects_of (attempt_loop w blobId n s))]"
proof (induction "maxRetrievalAttempts_standalone - n" arbitrary: n s)
  case 0
  then show ?case by (simp add: attempt_loop_done reads_simps)
next
  case (Suc k)
  then have lt: "n < maxRetrievalAttempts_standalone" by simp
  show ?case
  proof (cases rule: try_retrieve_cases [of w blobId "''downloaded_test.pdf''" s])
    case (ok c s1 ev)
    with lt show ?thesis by (simp add: attempt_loop_ok)
  next
    case (fail e s1 ev)
    show ?thesis
    proof (cases "n + 1 < maxRetrievalAttempts_standalone")
      case True
      define s2 where "s2 = (if isRetryable e then reset w s1 else s1)"
      define rest where "rest = attempt_loop w blobId (n + 1) s2"
      note step = attempt_loop_retry [OF True fail(1) s2_def rest_def]
      have "k = maxRetrievalAttempts_standalone - (n + 1)" using Suc.hyps(2) by simp
      then have ih: "sleeps (effects_of rest) =
          map (\<lambda>i. i * 3000) [n + 1 + 1 ..< n + 1 + reads (effects_of rest)]"
        unfolding rest_def by (rule Suc.hyps(1))
      have "0 < reads (effects_of rest)"
        unfolding rest_def using True by (rule attempt_loop_reads_pos)
      then have "[n + 1 ..< n + 1 + reads (effects_of rest)] =
                 (n + 1) # [n + 1 + 1 ..< n + 1 + reads (effects_of rest)]"
        by (simp add: upt_conv_Cons del: upt_Suc)
      with ih fail show ?thesis
        by (simp add: step reads_simps sleeps_append del: upt_Suc)
    next
      case False
      with lt fail show ?thesis
        by (simp add: attempt_loop_throw [OF lt False fail(1)] reads_simps sleeps_append)
    qed
  qed
qed

lemma attemptDownload_effects:
  "effects_of (attemptDownload w s) =
     GetBlob standalone_blobId #
       effects_of (attempt_loop w standalone_blobId 0 (snd (getBlob w s standalone_blobId)))"
  by (simp add: attemptDownload_def split: prod.splits)

lemma attemptDownload_reads_le: "reads (effects_of (attemptDownload w s)) \<le> 2"
  using attempt_loop_reads_le [of w standalone_blobId 0 "snd (getBlob w s standalone_blobId)"]
  by (simp add: attemptDownload_effects reads_simps maxRetrievalAttempts_standalone_def)

lemma downloadBlobById_reads_le: "reads (effects_of (downloadBlobById relay direct s)) \<le> 4"
proof -
  obtain r s1 ev where a: "attemptDownload relay s = (r, s1, ev)"
    by (cases "attemptDownload relay s")
  have ev: "reads ev \<le> 2" using attemptDownload_reads_le [of relay s] by (simp add: a)
  show ?thesis
  proof (cases r)
    case (Inr u)
    with a ev show ?thesis by (simp add: downloadBlobById_def)
  next
    case (Inl e)
    obtain r' s2 ev' where b: "attemptDownload direct s1 = (r', s2, ev')"
      by (cases "attemptDownload direct s1")
    have "reads ev' \<le> 2" using attemptDownload_reads_le [of direct s1] by (simp add: b)
    with a b ev Inl show ?thesis by (simp add: downloadBlobById_def reads_simps)
  qed
qed

text \<open>
  C2, as amended. The combined upload-and-verify script attempts retrieval at most 3
  times and waits \<open>i * 5000\<close> ms after the \<open>i\<close>-th failure; the standalone retrieval
  script attempts at most 2 times for each client configuration (at most 4 reads over
  its two configurations) and waits \<open>i * 3000\<close> ms; both reset the client after a
  retryable error, before the next attempt. \<open>downloadFromWalrus\<close> of the command-line
  script makes a single \<open>readBlob\<close> call and never retries.
\<close>

theorem download_retry_policies:
  "reads (effects_of (retrieval_loop w blobId 0 s)) \<le> 3 \<and>
   sleeps (effects_of (retrieval_loop w blobId 0 s)) =
     map (\<lambda>i. i * 5000) [1 ..< reads (effects_of (retrieval_loop w blobId 0 s))] \<and>
   reads (effects_of (attemptDownload w s)) \<le> 2 \<and>
   sleeps (effects_of (attemptDownload w s)) =
     map (\<lambda>i. i * 3000) [1 ..< reads (effects_of (attemptDownload w s))] \<and>
   reads (effects_of (downloadBlobById w w' s)) \<le> 4 \<and>
   effects_of (downloadFromWalrus w blobId s) = [ReadBlob blobId] \<and>
   (n + 1 < maxRetrievalAttempts \<and>
    try_retrieve w blobId ''downloaded_clean.pdf'' s = (Inl e, s1, ev) \<longrightarrow>
      effects_of (retrieval_loop w blobId n s) =
        ev @ (if isRetryable e then [Reset] else []) @ [Sleep ((n + 1) * 5000)] @
        effects_of (retrieval_loop w blobId (n + 1) (if isRetryable e then reset w s1 else s1))) \<and>
   (n + 1 < maxRetrievalAttempts_standalone \<and>
    try_retrieve w blobId ''downloaded_test.pdf'' s = (Inl e, s1, ev) \<longrightarrow>
      effects_of (attempt_loop w blobId n s) =
        ev @ (if isRetryable e then [Reset] else []) @ [Sleep ((n + 1) * 3000)] @
        effects_of (attempt_loop w blobId (n + 1) (if isRetryable e then reset w s1 else s1)))"
proof -
  have c1: "reads (effects_of (retrieval_loop w blobId 0 s)) \<le> 3"
    using retrieval_loop_reads_le [of w blobId 0 s] by (simp add: maxRetrievalAttempts_def)
  have c2: "sleeps (effects_of (retrieval_loop w blobId 0 s)) =
     map (\<lambda>i. i * 5000) [1 ..< reads (effects_of (retrieval_loop w blobId 0 s))]"
    using retrieval_loop_sleeps [of w blobId 0 s] by simp
  have c3: "reads (effects_of (attemptDownload w s)) \<le> 2"
    by (rule attemptDownload_reads_le)
  have c4: "sleeps (effects_of (attemptDownload w s)) =
     map (\<lambda>i. i * 3000) [1 ..< reads (effects_of (attemptDownload w s))]"
    using attempt_loop_sleeps [of w standalone_blobId 0 "snd (getBlob w s standalone_blobId)"]
    by (simp add: attemptDownload_effects reads_simps)
  have c5: "reads (effects_of (downloadBlobById w w' s)) \<le> 4"
    by (rule downloadBlobById_reads_le)
  have c6: "effects_of (downloadFromWalrus w blobId s) = [ReadBlob blobId]"
    by (simp add: downloadFromWalrus_def split: prod.splits sum.splits)
  have c7: "n + 1 < maxRetrievalAttempts \<and>
    try_retrieve w blobId ''downloaded_clean.pdf'' s = (Inl e, s1, ev) \<longrightarrow>
      effects_of (retrieval_loop w blobId n s) =
        ev @ (if isRetryable e then [Reset] else []) @ [Sleep ((n + 1) * 5000)] @
        effects_of (retrieval_loop w blobId (n + 1) (if isRetryable e then reset w s1 else s1))"
  proof
    assume h: "n + 1 < maxRetrievalAttempts \<and>
      try_retrieve w blobId ''downloaded_clean.pdf'' s = (Inl e, s1, ev)"
    then have lt: "n < maxRetrievalAttempts" by simp
    from h show "effects_of (retrieval_loop w blobId n s) =
        ev @ (if isRetryable e then [Reset] else []) @ [Sleep ((n + 1) * 5000)] @
        effects_of (retrieval_loop w blobId (n + 1) (if isRetryable e then reset w s1 else s1))"
      using retrieval_loop_fail [OF lt _ refl refl, of w blobId s e s1 ev] by simp
  qed
  have c8: "n + 1 < maxRetrievalAttempts_standalone \<and>
    try_retrieve w blobId ''downloaded_test.pdf'' s = (Inl e, s1, ev) \<longrightarrow>
      effects_of (attempt_loop w blobId n s) =
        ev @ (if isRetryable e then [Reset] else []) @ [Sleep ((n + 1) * 3000)] @
        effects_of (attempt_loop w blobId (n + 1) (if isRetryable e then reset w s1 else s1))"
  proof
    assume h: "n + 1 < maxRetrievalAttempts_standalone \<and>
      try_retrieve w blobId ''downloaded_test.pdf'' s = (Inl e, s1, ev)"
    then show "effects_of (attempt_loop w blobId n s) =
        ev @ (if isRetryable e then [Reset] else []) @ [Sleep ((n + 1) * 3000)] @
        effects_of (attempt_loop w blobId (n + 1) (if isRetryable e then reset w s1 else s1))"
      using attempt_loop_retry [OF _ _ refl refl, of n w blobId s e s1 ev] by simp
  qed
  from c1 c2 c3 c4 c5 c6 c7 c8 show ?thesis by blast
qed

lemma unreachable_try:
  "try_retrieve scripted b p unreachable =
     (Inl (RetryableWalrusClientError ''timeout''),
      unreachable\<lparr>read_outcomes := tl (read_outcomes unreachable)\<rparr>, [ReadBlob b])"
  by (simp add: try_retrieve_def scripted_def unreachable_def)

lemma unreachable_retrieval:
  "effects_of (retrieval_loop scripted b 0 unreachable) =
     [ReadBlob b, Reset, Sleep 5000, ReadBlob b, Reset, Sleep 10000, ReadBlob b, Reset]"
  by (simp add: retrieval_loop.simps try_retrieve_def scripted_def unreachable_def
        maxRetrievalAttempts_def)

lemma unreachable_attempt:
  "attemptDownload scripted unreachable =
     (Inl (Error (''All retrieval attempts failed for blob ID: '' @ standalone_blobId)),
      unreachable\<lparr>read_outcomes := drop 2 (read_outcomes unreachable), resets := 2\<rparr>,
      [GetBlob standalone_blobId, ReadBlob standalone_blobId, Reset, Sleep 3000,
       ReadBlob standalone_blobId, Reset])"
  by (simp add: attemptDownload_def attempt_loop.simps try_retrieve_def scripted_def
        unreachable_def maxRetrievalAttempts_standalone_def)

lemma unreachable_download:
  "downloadFromWalrus scripted b unreachable =
     (Inl (RetryableWalrusClientError ''timeout''),
      unreachable\<lparr>read_outcomes := tl (read_outcomes unreachable)\<rparr>, [ReadBlob b])"
  by (simp add: downloadFromWalrus_def scripted_def unreachable_def)

theorem download_retry_policies_witness:
  "0 + 1 < maxRetrievalAttempts \<and> 0 + 1 < maxRetrievalAttempts_standalone \<and>
   try_retrieve scripted ''b'' ''downloaded_clean.pdf'' unreachable =
     (Inl (RetryableWalrusClientError ''timeout''),
      unreachable\<lparr>read_outcomes := tl (read_outcomes unreachable)\<rparr>, [ReadBlob ''b'']) \<and>
   try_retrieve scripted ''b'' ''downloaded_test.pdf'' unreachable =
     (Inl (RetryableWalrusClientError ''timeout''),
      unreachable\<lparr>read_outcomes := tl (read_outcomes unreachable)\<rparr>, [ReadBlob ''b'']) \<and>
   reads (effects_of (retrieval_loop scripted ''b'' 0 unreachable)) = 3 \<and>
   sleeps (effects_of (retrieval_loop scripted ''b'' 0 unreachable)) = [5000, 10000] \<and>
   reads (effects_of (attemptDownload scripted unreachable)) = 2 \<and>
   sleeps (effects_of (attemptDownload scripted unreachable)) = [3000] \<and>
   effects_of (downloadFromWalrus scripted ''b'' unreachable) = [ReadBlob ''b'']"
proof -
  have a: "0 + 1 < maxRetrievalAttempts" by (simp add: maxRetrievalAttempts_def)
  have b: "0 + 1 < maxRetrievalAttempts_standalone"
    by (simp add: maxRetrievalAttempts_standalone_def)
  note c = unreachable_try [of "''b''" "''downloaded_clean.pdf''"]
  note d = unreachable_try [of "''b''" "''downloaded_test.pdf''"]
  have e: "reads (effects_of (retrieval_loop scripted ''b'' 0 unreachable)) = 3"
    by (simp add: unreachable_retrieval reads_def)
  have f: "sleeps (effects_of (retrieval_loop scripted ''b'' 0 unreachable)) = [5000, 10000]"
    by (simp add: unreachable_retrieval)
  have g: "reads (effects_of (attemptDownload scripted unreachable)) = 2"
    by (simp add: unreachable_attempt reads_def)
  have h: "sleeps (effects_of (attemptDownload scripted unreachable)) = [3000]"
    by (simp add: unreachable_attempt)
  from download_retry_policies [of scripted "''b''" unreachable scripted 0
      "RetryableWalrusClientError ''timeout''"
      "unreachable\<lparr>read_outcomes := tl (read_outcomes unreachable)\<rparr>" "[ReadBlob ''b'']"]
    a b c d e f g h
  show ?thesis by blast
qed

text \<open>
  C2 as stated fails: with every read rejected, the standalone script stops after 2
  attempts and waits 3000 ms (not 5000 and 10000), the combined script waits 5000 and
  10000 ms (not 3000 and 6000), and \<open>downloadFromWalrus\<close> gives up after one read.
\<close>

theorem download_paths_differ:
  "reads (effects_of (attemptDownload scripted unreachable)) = 2 \<and>
   sleeps (effects_of (attemptDownload scripted unreachable)) = [3000] \<and>
   sleeps (effects_of (attemptDownload scripted unreachable)) \<noteq> [5000, 10000] \<and>
   reads (effects_of (retrieval_loop scripted ''b'' 0 unreachable)) = 3 \<and>
   sleeps (effects_of (retrieval_loop scripted ''b'' 0 unreachable)) = [5000, 10000] \<and>
   sleeps (effects_of (retrieval_loop scripted ''b'' 0 unreachable)) \<noteq> [3000, 6000] \<and>
   downloadFromWalrus scripted ''b'' unreachable =
     (Inl (RetryableWalrusClientError ''timeout''),
      unreachable\<lparr>read_outcomes := tl (read_outcomes unreachable)\<rparr>, [ReadBlob ''b''])"
  by (simp add: unreachable_retrieval unreachable_attempt unreachable_download reads_def)

section \<open>The upload loop: attempts, delays and resets\<close>

text \<open>
  C4. The upload loop issues at most three \<open>writeBlob\<close> calls, whatever the network
  answers, and it waits between consecutive attempts and nowhere else: apart from the
  resets, what it does is one of write; write, wait 3000 ms, write; write, wait 3000
  ms, write, wait 6000 ms, write. So the delay after the \<open>i\<close>-th failed attempt is
  \<open>i * 3000\<close> ms, there is none before the first attempt or after the last, and a loop
  that ends without a result has made exactly three attempts and waited exactly 3000
  and 6000 ms. \<open>uploadToWalrus\<close> performs exactly the effects of this loop on the bytes of
  the file, and a run of the combined upload-and-verify script begins with them.
\<close>

theorem upload_at_most_three_attempts:
  "writes (effects_of (upload_loop w blob 0 s)) \<le> 3 \<and>
   sleeps (effects_of (upload_loop w blob 0 s)) =
     map (\<lambda>i. i * 3000) [1 ..< writes (effects_of (upload_loop w blob 0 s))] \<and>
   prefix (sleeps (effects_of (upload_loop w blob 0 s))) [3000, 6000] \<and>
   (outcome_of (upload_loop w blob 0 s) = None \<longrightarrow>
      writes (effects_of (upload_loop w blob 0 s)) = 3 \<and>
      sleeps (effects_of (upload_loop w blob 0 s)) = [3000, 6000]) \<and>
   writes (effects_of (uploadToWalrus w filePath s)) \<le> 3 \<and>
   writes (effects_of (main w s)) \<le> 3 \<and>
   filter (\<lambda>e. e \<noteq> Reset) (effects_of (upload_loop w blob 0 s)) \<in>
     {[WriteBlob blob],
      [WriteBlob blob, Sleep 3000, WriteBlob blob],
      [WriteBlob blob, Sleep 3000, WriteBlob blob, Sleep 6000, WriteBlob blob]} \<and>
   (outcome_of (upload_loop w blob 0 s) = None \<longrightarrow>
      filter (\<lambda>e. e \<noteq> Reset) (effects_of (upload_loop w blob 0 s)) =
        [WriteBlob blob, Sleep 3000, WriteBlob blob, Sleep 6000, WriteBlob blob]) \<and>
   (readFileSync w s filePath = Inr blob \<longrightarrow>
      effects_of (uploadToWalrus w filePath s) = effects_of (upload_loop w blob 0 s)) \<and>
   (readFileSync w s ''./test.pdf'' = Inr blob \<longrightarrow>
      prefix (effects_of (upload_loop w blob 0 s)) (effects_of (main w s)))"
proof -
  let ?evs = "effects_of (upload_loop w blob 0 s)"
  let ?W = "WriteBlob blob"
  have le: "writes ?evs \<le> 3"
    using upload_loop_writes_le [of w blob 0 s] by (simp add: maxAttempts_def)
  have sl: "sleeps ?evs = map (\<lambda>i. i * 3000) [1 ..< writes ?evs]"
    using upload_loop_sleeps [of w blob 0 s] by simp
  have pos: "0 < writes ?evs"
    by (rule upload_loop_writes_pos) (simp add: maxAttempts_def)
  have cases3: "writes ?evs = 1 \<or> writes ?evs = 2 \<or> writes ?evs = 3"
    using le pos by arith
  then have pre: "prefix (sleeps ?evs) [3000, 6000]"
    by (auto simp: sl upt_rec)
  have sched: "filter (\<lambda>e. e \<noteq> Reset) ?evs =
      ?W # concat (map (\<lambda>i. [Sleep (i * 3000), ?W]) [1 ..< writes ?evs])"
    using upload_loop_schedule [of 0 w blob s] by (simp add: maxAttempts_def)
  have u1: "[1 ..< 1] = ([] :: nat list)" and u2: "[1 ..< 2] = [1 :: nat]"
    and u3: "[1 ..< 3] = [1 :: nat, 2]"
    by (simp_all add: upt_rec)
  have f1: "writes ?evs = 1 \<Longrightarrow> filter (\<lambda>e. e \<noteq> Reset) ?evs = [?W]"
    using sched by (simp only: u1) simp
  have f2: "writes ?evs = 2 \<Longrightarrow> filter (\<lambda>e. e \<noteq> Reset) ?evs = [?W, Sleep 3000, ?W]"
    using sched by (simp only: u2) simp
  have f3: "writes ?evs = 3 \<Longrightarrow>
      filter (\<lambda>e. e \<noteq> Reset) ?evs = [?W, Sleep 3000, ?W, Sleep 6000, ?W]"
    using sched by (simp only: u3) simp
  have shape: "filter (\<lambda>e. e \<noteq> Reset) ?evs \<in>
     {[?W], [?W, Sleep 3000, ?W], [?W, Sleep 3000, ?W, Sleep 6000, ?W]}"
    using cases3 f1 f2 f3 by blast
  have three: "outcome_of (upload_loop w blob 0 s) = None \<Longrightarrow> writes ?evs = 3"
    using upload_loop_None [of 0 w blob s] by (simp add: maxAttempts_def)
  have s3: "writes ?evs = 3 \<Longrightarrow> sleeps ?evs = [3000, 6000]"
    using sl by (simp only: u3) simp
  have none: "outcome_of (upload_loop w blob 0 s) = None \<longrightarrow>
      writes ?evs = 3 \<and> sleeps ?evs = [3000, 6000]"
    using three s3 by blast
  have none': "outcome_of (upload_loop w blob 0 s) = None \<longrightarrow>
      filter (\<lambda>e. e \<noteq> Reset) ?evs = [?W, Sleep 3000, ?W, Sleep 6000, ?W]"
    using three f3 by blast
  have up: "writes (effects_of (uploadToWalrus w filePath s)) \<le> 3"
  proof (cases "readFileSync w s filePath")
    case (Inl e)
    then show ?thesis by (simp add: uploadToWalrus_def writes_simps)
  next
    case (Inr c)
    have "writes (effects_of (upload_loop w c 0 s)) \<le> 3"
      using upload_loop_writes_le [of w c 0 s] by (simp add: maxAttempts_def)
    with Inr show ?thesis
      by (cases "upload_loop w c 0 s")
         (auto simp: uploadToWalrus_def split: option.splits)
  qed
  have mn: "writes (effects_of (main w s)) \<le> 3"
  proof (cases "readFileSync w s ''./test.pdf''")
    case (Inl e)
    then show ?thesis by (simp add: main_def writes_simps)
  next
    case (Inr c)
    obtain r s1 ev where u: "upload_loop w c 0 s = (r, s1, ev)" by (cases "upload_loop w c 0 s")
    have ev: "writes ev \<le> 3"
      using upload_loop_writes_le [of w c 0 s] by (simp add: u maxAttempts_def)
    show ?thesis
    proof (cases r)
      case None
      with Inr u ev show ?thesis by (simp add: main_def)
    next
      case (Some res)
      obtain r' s2 ev' where v: "retrieval_loop w (result_blobId res) 0 s1 = (r', s2, ev')"
        by (cases "retrieval_loop w (result_blobId res) 0 s1")
      have "writes ev' = 0"
        using retrieval_loop_writes [of w "result_blobId res" 0 s1] by (simp add: v)
      with Inr u ev Some v show ?thesis
        by (cases r') (simp_all add: main_def writes_simps)
    qed
  qed
  have same: "readFileSync w s filePath = Inr blob \<longrightarrow>
      effects_of (uploadToWalrus w filePath s) = ?evs"
    by (cases "upload_loop w blob 0 s")
       (auto simp: uploadToWalrus_def split: option.splits)
  have starts: "readFileSync w s ''./test.pdf'' = Inr blob \<longrightarrow>
      prefix ?evs (effects_of (main w s))"
    by (cases "upload_loop w blob 0 s")
       (auto simp: main_def split: option.splits prod.splits)
  from le sl pre none up mn shape none' same starts show ?thesis by blast
qed

lemma three_retryable_run:
  "upload_loop scripted [1, 2, 3, 4, 5] 0 three_retryable =
     (None, three_retryable\<lparr>write_outcomes := [Inr \<lparr>result_blobId = ''late''\<rparr>], resets := 3\<rparr>,
      [WriteBlob [1, 2, 3, 4, 5], Reset, Sleep 3000,
       WriteBlob [1, 2, 3, 4, 5], Reset, Sleep 6000,
       WriteBlob [1, 2, 3, 4, 5], Reset])"
  by (simp add: upload_loop.simps scripted_def maxAttempts_def three_retryable_def)

theorem upload_at_most_three_attempts_witness:
  "outcome_of (upload_loop scripted [1, 2, 3, 4, 5] 0 three_retryable) = None \<and>
   writes (effects_of (upload_loop scripted [1, 2, 3, 4, 5] 0 three_retryable)) = 3 \<and>
   sleeps (effects_of (upload_loop scripted [1, 2, 3, 4, 5] 0 three_retryable)) = [3000, 6000] \<and>
   write_outcomes (state_of (upload_loop scripted [1, 2, 3, 4, 5] 0 three_retryable)) =
     [Inr \<lparr>result_blobId = ''late''\<rparr>] \<and>
   filter (\<lambda>e. e \<noteq> Reset) (effects_of (upload_loop scripted [1, 2, 3, 4, 5] 0 three_retryable)) =
     [WriteBlob [1, 2, 3, 4, 5], Sleep 3000, WriteBlob [1, 2, 3, 4, 5], Sleep 6000,
      WriteBlob [1, 2, 3, 4, 5]]"
  using upload_at_most_three_attempts [of scripted "[1, 2, 3, 4, 5]" three_retryable]
  by (simp add: three_retryable_run)

text \<open>
  C1, as amended. When an attempt of the upload loop fails, the client is reset exactly
  when the error is a \<open>RetryableWalrusClientError\<close>, and the reset comes before the next
  attempt. An error that is not retryable does not end the loop: as long as fewer than
  three attempts have been made, the loop waits and issues the next \<open>writeBlob\<close>, on
  the state left by the failure. Only the third failure ends the loop.
\<close>

theorem upload_retry_reset_policy:
  assumes "attempts < maxAttempts" and "writeBlob w s blob = (Inl e, s1)"
  shows "(attempts + 1 < maxAttempts \<longrightarrow>
           upload_loop w blob attempts s =
             (outcome_of (upload_loop w blob (attempts + 1) (if isRetryable e then reset w s1 else s1)),
              state_of (upload_loop w blob (attempts + 1) (if isRetryable e then reset w s1 else s1)),
              WriteBlob blob # (if isRetryable e then [Reset] else []) @
                [Sleep ((attempts + 1) * 3000)] @
                effects_of (upload_loop w blob (attempts + 1) (if isRetryable e then reset w s1 else s1))) \<and>
           (\<exists>rest. effects_of (upload_loop w blob attempts s) =
              WriteBlob blob # (if isRetryable e then [Reset] else []) @
                [Sleep ((attempts + 1) * 3000), WriteBlob blob] @ rest)) \<and>
         (\<not> attempts + 1 < maxAttempts \<longrightarrow>
           upload_loop w blob attempts s =
             (None, (if isRetryable e then reset w s1 else s1),
              WriteBlob blob # (if isRetryable e then [Reset] else [])))"
proof -
  define s2 where "s2 = (if isRetryable e then reset w s1 else s1)"
  define rest where "rest = upload_loop w blob (attempts + 1) s2"
  note step = upload_loop_fail [OF assms s2_def rest_def]
  have a: "attempts + 1 < maxAttempts \<longrightarrow>
           upload_loop w blob attempts s =
             (outcome_of rest, state_of rest,
              WriteBlob blob # (if isRetryable e then [Reset] else []) @
                [Sleep ((attempts + 1) * 3000)] @ effects_of rest) \<and>
           (\<exists>r. effects_of (upload_loop w blob attempts s) =
              WriteBlob blob # (if isRetryable e then [Reset] else []) @
                [Sleep ((attempts + 1) * 3000), WriteBlob blob] @ r)"
  proof
    assume lt: "attempts + 1 < maxAttempts"
    obtain r where "effects_of rest = WriteBlob blob # r"
      using upload_loop_first_effect [OF lt, of w blob s2] unfolding rest_def by blast
    with lt show "upload_loop w blob attempts s =
             (outcome_of rest, state_of rest,
              WriteBlob blob # (if isRetryable e then [Reset] else []) @
                [Sleep ((attempts + 1) * 3000)] @ effects_of rest) \<and>
           (\<exists>r. effects_of (upload_loop w blob attempts s) =
              WriteBlob blob # (if isRetryable e then [Reset] else []) @
                [Sleep ((attempts + 1) * 3000), WriteBlob blob] @ r)"
      by (simp add: step)
  qed
  have b: "\<not> attempts + 1 < maxAttempts \<longrightarrow>
           upload_loop w blob attempts s =
             (None, s2, WriteBlob blob # (if isRetryable e then [Reset] else []))"
  proof
    assume nlt: "\<not> attempts + 1 < maxAttempts"
    then have "rest = (None, s2, [])" unfolding rest_def by (rule upload_loop_done)
    with nlt show "upload_loop w blob attempts s =
             (None, s2, WriteBlob blob # (if isRetryable e then [Reset] else []))"
      by (simp add: step)
  qed
  from a b show ?thesis unfolding rest_def s2_def by blast
qed

theorem upload_retry_reset_policy_witness:
  "0 < maxAttempts \<and> 0 + 1 < maxAttempts \<and> 2 < maxAttempts \<and> \<not> 2 + 1 < maxAttempts \<and>
   writeBlob scripted three_retryable [1, 2, 3, 4, 5] =
     (Inl (RetryableWalrusClientError ''a''),
      three_retryable\<lparr>write_outcomes := tl (write_outcomes three_retryable)\<rparr>) \<and>
   isRetryable (RetryableWalrusClientError ''a'') \<and>
   (\<exists>rest. effects_of (upload_loop scripted [1, 2, 3, 4, 5] 0 three_retryable) =
      [WriteBlob [1, 2, 3, 4, 5], Reset, Sleep 3000, WriteBlob [1, 2, 3, 4, 5]] @ rest) \<and>
   writeBlob scripted terminal_then_ok [1, 2, 3] =
     (Inl (SdkError ''bad request''),
      terminal_then_ok\<lparr>write_outcomes := tl (write_outcomes terminal_then_ok)\<rparr>) \<and>
   \<not> isRetryable (SdkError ''bad request'') \<and>
   (\<exists>rest. effects_of (upload_loop scripted [1, 2, 3] 0 terminal_then_ok) =
      [WriteBlob [1, 2, 3], Sleep 3000, WriteBlob [1, 2, 3]] @ rest) \<and>
   effects_of (upload_loop scripted [1, 2, 3, 4, 5] 2 three_retryable) =
     [WriteBlob [1, 2, 3, 4, 5], Reset] \<and>
   outcome_of (upload_loop scripted [1, 2, 3, 4, 5] 2 three_retryable) = None"
proof -
  have h1: "0 < maxAttempts" "0 + 1 < maxAttempts" "2 < maxAttempts" "\<not> 2 + 1 < maxAttempts"
    by (simp_all add: maxAttempts_def)
  have h2: "writeBlob scripted three_retryable [1, 2, 3, 4, 5] =
     (Inl (RetryableWalrusClientError ''a''),
      three_retryable\<lparr>write_outcomes := tl (write_outcomes three_retryable)\<rparr>)"
    by (simp add: scripted_def three_retryable_def)
  have h3: "writeBlob scripted terminal_then_ok [1, 2, 3] =
     (Inl (SdkError ''bad request''),
      terminal_then_ok\<lparr>write_outcomes := tl (write_outcomes terminal_then_ok)\<rparr>)"
    by (simp add: scripted_def terminal_then_ok_def)
  have r1: "\<exists>rest. effects_of (upload_loop scripted [1, 2, 3, 4, 5] 0 three_retryable) =
      [WriteBlob [1, 2, 3, 4, 5], Reset, Sleep 3000, WriteBlob [1, 2, 3, 4, 5]] @ rest"
  proof -
    from upload_retry_reset_policy [OF h1(1) h2] h1(2)
    have "\<exists>rest. effects_of (upload_loop scripted [1, 2, 3, 4, 5] 0 three_retryable) =
        WriteBlob [1, 2, 3, 4, 5] #
          (if isRetryable (RetryableWalrusClientError ''a'') then [Reset] else []) @
          [Sleep ((0 + 1) * 3000), WriteBlob [1, 2, 3, 4, 5]] @ rest"
      by blast
    then show ?thesis by simp
  qed
  have r2: "\<exists>rest. effects_of (upload_loop scripted [1, 2, 3] 0 terminal_then_ok) =
      [WriteBlob [1, 2, 3], Sleep 3000, WriteBlob [1, 2, 3]] @ rest"
  proof -
    from upload_retry_reset_policy [OF h1(1) h3] h1(2)
    have "\<exists>rest. effects_of (upload_loop scripted [1, 2, 3] 0 terminal_then_ok) =
        WriteBlob [1, 2, 3] # (if isRetryable (SdkError ''bad request'') then [Reset] else []) @
          [Sleep ((0 + 1) * 3000), WriteBlob [1, 2, 3]] @ rest"
      by blast
    then show ?thesis by simp
  qed
  have r3: "effects_of (upload_loop scripted [1, 2, 3, 4, 5] 2 three_retryable) =
      [WriteBlob [1, 2, 3, 4, 5], Reset] \<and>
      outcome_of (upload_loop scripted [1, 2, 3, 4, 5] 2 three_retryable) = None"
  proof -
    from upload_retry_reset_policy [OF h1(3) h2] h1(4)
    have "upload_loop scripted [1, 2, 3, 4, 5] 2 three_retryable =
        (None,
         (if isRetryable (RetryableWalrusClientError ''a'')
          then reset scripted (three_retryable\<lparr>write_outcomes := tl (write_outcomes three_retryable)\<rparr>)
          else three_retryable\<lparr>write_outcomes := tl (write_outcomes three_retryable)\<rparr>),
         WriteBlob [1, 2, 3, 4, 5] #
           (if isRetryable (RetryableWalrusClientError ''a'') then [Reset] else []))"
      by blast
    then show ?thesis by simp
  qed
  have i: "isRetryable (RetryableWalrusClientError ''a'')" "\<not> isRetryable (SdkError ''bad request'')"
    by simp_all
  from h1 h2 h3 i r1 r2 r3 show ?thesis by blast
qed

text \<open>
  C1 as stated fails: after a rejection that is not retryable the loop issues a second
  \<open>writeBlob\<close>, which here succeeds.
\<close>

theorem upload_continues_after_terminal_error:
  "writeBlob scripted terminal_then_ok [1, 2, 3] =
     (Inl (SdkError ''bad request''), terminal_then_ok\<lparr>write_outcomes := [Inr \<lparr>result_blobId = ''blob-1''\<rparr>]\<rparr>) \<and>
   \<not> isRetryable (SdkError ''bad request'') \<and>
   outcome_of (upload_loop scripted [1, 2, 3] 0 terminal_then_ok) = Some \<lparr>result_blobId = ''blob-1''\<rparr> \<and>
   effects_of (upload_loop scripted [1, 2, 3] 0 terminal_then_ok) =
     [WriteBlob [1, 2, 3], Sleep 3000, WriteBlob [1, 2, 3]] \<and>
   writes (effects_of (upload_loop scripted [1, 2, 3] 0 terminal_then_ok)) = 2"
  by (simp add: upload_loop.simps scripted_def maxAttempts_def terminal_then_ok_def writes_def)

section \<open>Facts about the library and the route\<close>

text \<open>
  C3. For every blob id that starts with \<open>mock-blob-\<close>, the library's
  \<open>downloadFromWalrus\<close> throws \<open>Cannot download mock blob ID\<close> and the route answers 404
  with its own message; in both the state is unchanged and no effect is performed, so
  no child process is started and no network call is made.
\<close>

theorem mock_download_fails_without_network:
  assumes "prefix ''mock-blob-'' blobId"
  shows "lib_downloadFromWalrus h blobId s = (Inl (Error ''Cannot download mock blob ID''), s, []) \<and>
         GET h (Some blobId) s =
           (json_error ''Mock blob ID - file not available for download'' 404, s, [])"
proof -
  from assms have "blobId \<noteq> []" by auto
  with assms show ?thesis
    by (simp add: lib_downloadFromWalrus_def GET_def startsWith_def mock_prefix_def)
qed

theorem mock_download_fails_without_network_witness:
  "prefix ''mock-blob-'' ''mock-blob-123'' \<and>
   lib_downloadFromWalrus sim_host ''mock-blob-123'' host_up =
     (Inl (Error ''Cannot download mock blob ID''), host_up, []) \<and>
   GET sim_host (Some ''mock-blob-123'') host_up =
     (json_error ''Mock blob ID - file not available for download'' 404, host_up, []) \<and>
   status (json_error ''Mock blob ID - file not available for download'' 404) = 404"
proof -
  have p: "prefix ''mock-blob-'' ''mock-blob-123''" by simp
  from mock_download_fails_without_network [OF p, of sim_host host_up] p
  show ?thesis by (simp add: json_error_def)
qed

lemma trim_saved_line:
  "trim (replace_first ''File saved to:'' [] ''File saved to: /app/scripts/downloaded-abc.bin'') =
     ''/app/scripts/downloaded-abc.bin''"
  by (simp add: trim_def strip_front.simps js_whitespace_def)







section \<open>Facts about failure handling\<close>

lemma mockBlobId_prefix: "prefix ''mock-blob-'' (mockBlobId h s)"
  by (simp add: mockBlobId_def mock_prefix_def)

lemma lib_upload_write_fails:
  "host_writeFileSync h (upload_ready h s) (tempFile h s) fileContents = (Inl e, s3) \<Longrightarrow>
   outcome_of (lib_uploadToWalrus h fileContents s) = Inr (mockBlobId h s3)"
  by (simp add: lib_uploadToWalrus_def upload_fallback_def Let_def)

lemma lib_upload_exec_fails:
  "host_writeFileSync h (upload_ready h s) (tempFile h s) fileContents = (Inr u, s3) \<Longrightarrow>
   execAsync h s3 (upload_command h s) = (Inl e, s4) \<Longrightarrow>
   outcome_of (lib_uploadToWalrus h fileContents s) = Inr (mockBlobId h s4)"
  by (simp add: lib_uploadToWalrus_def upload_fallback_def Let_def)

lemma lib_upload_no_line:
  "host_writeFileSync h (upload_ready h s) (tempFile h s) fileContents = (Inr u, s3) \<Longrightarrow>
   execAsync h s3 (upload_command h s) = (Inr (out, err), s4) \<Longrightarrow>
   find (\<lambda>line. startsWith line ''Blob ID:'') (split_on newline out) = None \<Longrightarrow>
   outcome_of (lib_uploadToWalrus h fileContents s) =
     Inr (mockBlobId h (unlinkSync h s4 (tempFile h s)))"
  by (simp add: lib_uploadToWalrus_def upload_fallback_def Let_def)

lemma lib_upload_line:
  "host_writeFileSync h (upload_ready h s) (tempFile h s) fileContents = (Inr u, s3) \<Longrightarrow>
   execAsync h s3 (upload_command h s) = (Inr (out, err), s4) \<Longrightarrow>
   find (\<lambda>line. startsWith line ''Blob ID:'') (split_on newline out) = Some line \<Longrightarrow>
   outcome_of (lib_uploadToWalrus h fileContents s) =
     Inr (trim (replace_first ''Blob ID:'' [] line))"
  by (simp add: lib_uploadToWalrus_def Let_def)

lemma lib_upload_resolves: "\<exists>id. outcome_of (lib_uploadToWalrus h fileContents s) = Inr id"
proof -
  obtain wr s3 where wr: "host_writeFileSync h (upload_ready h s) (tempFile h s) fileContents = (wr, s3)"
    by (cases "host_writeFileSync h (upload_ready h s) (tempFile h s) fileContents")
  show ?thesis
  proof (cases wr)
    case (Inl e)
    with wr show ?thesis by (simp add: lib_upload_write_fails)
  next
    case (Inr u)
    obtain ex s4 where ex: "execAsync h s3 (upload_command h s) = (ex, s4)"
      by (cases "execAsync h s3 (upload_command h s)")
    show ?thesis
    proof (cases ex)
      case (Inl e)
      with wr Inr ex show ?thesis by (simp add: lib_upload_exec_fails)
    next
      case r: (Inr oe)
      obtain out err where oe: "oe = (out, err)" by (cases oe)
      show ?thesis
      proof (cases "find (\<lambda>line. startsWith line ''Blob ID:'') (split_on newline out)")
        case None
        with wr Inr ex r oe show ?thesis by (simp add: lib_upload_no_line)
      next
        case (Some line)
        with wr Inr ex r oe show ?thesis by (simp add: lib_upload_line)
      qed
    qed
  qed
qed

lemma try_retrieve_read_fails:
  "readBlob w s blobId = (Inl e, s1) \<Longrightarrow>
   try_retrieve w blobId outPath s = (Inl e, s1, [ReadBlob blobId])"
  by (simp add: try_retrieve_def)

lemma attempt_loop_both_fail:
  assumes "try_retrieve w blobId ''downloaded_test.pdf'' s = (Inl e1, s1, ev1)"
    and "try_retrieve w blobId ''downloaded_test.pdf'' (if isRetryable e1 then reset w s1 else s1) =
           (Inl e2, s2, ev2)"
  shows "attempt_loop w blobId 0 s =
           (Inl (Error (''All retrieval attempts failed for blob ID: '' @ blobId)),
            (if isRetryable e2 then reset w s2 else s2),
            ev1 @ (if isRetryable e1 then [Reset] else []) @ [Sleep 3000] @
            ev2 @ (if isRetryable e2 then [Reset] else []))"
proof -
  have lt: "0 + 1 < maxRetrievalAttempts_standalone" "0 + 1 < maxRetrievalAttempts_standalone"
    "\<not> (0 + 1) + 1 < maxRetrievalAttempts_standalone"
    by (simp_all add: maxRetrievalAttempts_standalone_def)
  note first = attempt_loop_retry [OF lt(1) assms(1) refl refl]
  note second = attempt_loop_throw [OF lt(2) lt(3) assms(2)]
  show ?thesis
    by (simp add: first second [simplified])
qed

lemma attempt_loop_first_ok:
  "try_retrieve w blobId ''downloaded_test.pdf'' s = (Inr c, s1, ev1) \<Longrightarrow>
   attempt_loop w blobId 0 s = (Inr (), s1, ev1)"
  by (rule attempt_loop_ok) (simp add: maxRetrievalAttempts_standalone_def)

lemma attempt_loop_second_ok:
  assumes "try_retrieve w blobId ''downloaded_test.pdf'' s = (Inl e1, s1, ev1)"
    and "try_retrieve w blobId ''downloaded_test.pdf'' (if isRetryable e1 then reset w s1 else s1) =
           (Inr c, s2, ev2)"
  shows "attempt_loop w blobId 0 s =
           (Inr (), s2, ev1 @ (if isRetryable e1 then [Reset] else []) @ [Sleep 3000] @ ev2)"
proof -
  have lt: "0 + 1 < maxRetrievalAttempts_standalone"
    by (simp add: maxRetrievalAttempts_standalone_def)
  note first = attempt_loop_retry [OF lt assms(1) refl refl]
  note second = attempt_loop_ok [OF lt assms(2)]
  show ?thesis
    by (simp add: first second [simplified])
qed

lemma main_resolves: "\<exists>r. outcome_of (main w s) = Inr r"
  by (auto simp: main_def split: sum.splits prod.splits option.splits)

lemma attempt_loop_outcome:
  "outcome_of (attempt_loop w blobId n s) = Inr () \<or>
   outcome_of (attempt_loop w blobId n s) =
     Inl (Error (''All retrieval attempts failed for blob ID: '' @ blobId))"
proof (induction "maxRetrievalAttempts_standalone - n" arbitrary: n s)
  case 0
  then show ?case by (simp add: attempt_loop_done)
next
  case (Suc k)
  then have lt: "n < maxRetrievalAttempts_standalone" by simp
  show ?case
  proof (cases rule: try_retrieve_cases [of w blobId "''downloaded_test.pdf''" s])
    case (ok c s1 ev)
    with lt show ?thesis by (simp add: attempt_loop_ok)
  next
    case (fail e s1 ev)
    show ?thesis
    proof (cases "n + 1 < maxRetrievalAttempts_standalone")
      case True
      define s2 where "s2 = (if isRetryable e then reset w s1 else s1)"
      define rest where "rest = attempt_loop w blobId (n + 1) s2"
      have "k = maxRetrievalAttempts_standalone - (n + 1)" using Suc.hyps(2) by simp
      then have "outcome_of rest = Inr () \<or>
          outcome_of rest = Inl (Error (''All retrieval attempts failed for blob ID: '' @ blobId))"
        unfolding rest_def by (rule Suc.hyps(1))
      then show ?thesis
        by (simp add: attempt_loop_retry [OF True fail(1) s2_def rest_def])
    next
      case False
      then show ?thesis
        by (simp add: attempt_loop_throw [OF lt False fail(1)])
    qed
  qed
qed

lemma attemptDownload_outcome:
  "outcome_of (attemptDownload w s) =
     outcome_of (attempt_loop w standalone_blobId 0 (snd (getBlob w s standalone_blobId)))"
  by (simp add: attemptDownload_def split: prod.splits)

lemma downloadBlobById_resolves: "outcome_of (downloadBlobById w w' s) = Inr ()"
  by (simp add: downloadBlobById_def split: prod.splits sum.splits)

lemma try_retrieve_one_read: "reads (snd (snd (try_retrieve w blobId outPath s))) = 1"
  using try_retrieve_effects(1) [of w blobId outPath s] by (simp add: effects_of_def)

lemma sim_host_clock:
  assumes "clock s = 1700000000000" and "rnd s = ''0.k3j9x8q2mzp''"
  shows "tempFile sim_host s = ''/app/temp/upload-1700000000000-k3j9x8q2m.tmp''"
    and "mockBlobId sim_host s = ''mock-blob-1700000000000-k3j9x8q2m''"
    and "upload_ready sim_host s = s"
proof -
  have n: "show_nat 1700000000000 = ''1700000000000''"
    by (simp add: show_nat.simps)
  have j: "posix_join [posix_join [''/app'', ''temp''], ''upload-1700000000000-k3j9x8q2m.tmp''] =
      ''/app/temp/upload-1700000000000-k3j9x8q2m.tmp''"
    by (simp add: posix_join_def posix_normalize_def Let_def)
  show "tempFile sim_host s = ''/app/temp/upload-1700000000000-k3j9x8q2m.tmp''"
    using j by (simp add: tempFile_def tempDir_def sim_host_def assms n substr_def)
  show "mockBlobId sim_host s = ''mock-blob-1700000000000-k3j9x8q2m''"
    by (simp add: mockBlobId_def mock_prefix_def sim_host_def assms n substr_def)
  show "upload_ready sim_host s = s"
    by (simp add: upload_ready_def sim_host_def)
qed

lemma sim_host_runs:
  "host_writeFileSync sim_host host_readonly f b = (Inl (FsError ''EACCES''), host_readonly)"
  "host_writeFileSync sim_host host_down f b = (Inr (), host_down\<lparr>hfiles := [(f, b)]\<rparr>)"
  "host_writeFileSync sim_host host_uploaded f b = (Inr (), host_uploaded\<lparr>hfiles := [(f, b)]\<rparr>)"
  "host_writeFileSync sim_host host_up f b =
     (Inr (), host_up\<lparr>hfiles := [(f, b), (''/app/scripts/downloaded-abc.bin'', [1, 2, 3])]\<rparr>)"
  "execAsync sim_host (host_down\<lparr>hfiles := fs\<rparr>) cmd =
     (Inl (ExecError ''Command failed''), host_down\<lparr>hfiles := fs\<rparr>)"
  "execAsync sim_host (host_uploaded\<lparr>hfiles := fs\<rparr>) cmd =
     (Inr (''Blob ID: abc'' @ [newline], []), host_uploaded\<lparr>hfiles := fs\<rparr>)"
  "execAsync sim_host (host_up\<lparr>hfiles := fs\<rparr>) cmd =
     (Inr (''File saved to: /app/scripts/downloaded-abc.bin'' @ [newline], []),
      host_up\<lparr>hfiles := fs\<rparr>)"
  by (simp_all add: sim_host_def host_readonly_def host_down_def host_uploaded_def host_up_def)

lemma sim_host_lines:
  "find (\<lambda>line. startsWith line ''Blob ID:'')
     (split_on newline (''File saved to: /app/scripts/downloaded-abc.bin'' @ [newline])) = None"
  "find (\<lambda>line. startsWith line ''Blob ID:'') (split_on newline (''Blob ID: abc'' @ [newline])) =
     Some ''Blob ID: abc''"
  "trim (replace_first ''Blob ID:'' [] ''Blob ID: abc'') = ''abc''"
  by (simp_all add: startsWith_def newline_def trim_def strip_front.simps js_whitespace_def)

lemma sim_host_times:
  "clock host_readonly = 1700000000000" "rnd host_readonly = ''0.k3j9x8q2mzp''"
  "clock host_down = 1700000000000" "rnd host_down = ''0.k3j9x8q2mzp''"
  "clock host_uploaded = 1700000000000" "rnd host_uploaded = ''0.k3j9x8q2mzp''"
  "clock host_up = 1700000000000" "rnd host_up = ''0.k3j9x8q2mzp''"
  "clock (unlinkSync sim_host (s\<lparr>hfiles := fs\<rparr>) f) = clock s"
  "rnd (unlinkSync sim_host (s\<lparr>hfiles := fs\<rparr>) f) = rnd s"
  "clock (s\<lparr>hfiles := fs\<rparr>) = clock s" "rnd (s\<lparr>hfiles := fs\<rparr>) = rnd s"
  by (simp_all add: sim_host_def host_readonly_def host_down_def host_uploaded_def host_up_def)

lemma unreachable_reads:
  "readBlob scripted (snd (getBlob scripted unreachable standalone_blobId)) standalone_blobId =
     (Inl (RetryableWalrusClientError ''timeout''),
      unreachable\<lparr>read_outcomes :=
        [Inl (RetryableWalrusClientError ''timeout''), Inl (RetryableWalrusClientError ''timeout''),
         Inl (RetryableWalrusClientError ''timeout'')]\<rparr>)"
  "readBlob scripted
     (reset scripted (unreachable\<lparr>read_outcomes :=
        [Inl (RetryableWalrusClientError ''timeout''), Inl (RetryableWalrusClientError ''timeout''),
         Inl (RetryableWalrusClientError ''timeout'')]\<rparr>)) standalone_blobId =
     (Inl (RetryableWalrusClientError ''timeout''),
      unreachable\<lparr>read_outcomes :=
        [Inl (RetryableWalrusClientError ''timeout''), Inl (RetryableWalrusClientError ''timeout'')],
        resets := 1\<rparr>)"
  by (simp_all add: scripted_def unreachable_def)

lemma retrieval_loop_three_fail:
  assumes "try_retrieve w blobId ''downloaded_clean.pdf'' s = (Inl e1, s1, ev1)"
    and "try_retrieve w blobId ''downloaded_clean.pdf'' (if isRetryable e1 then reset w s1 else s1) =
           (Inl e2, s2, ev2)"
    and "try_retrieve w blobId ''downloaded_clean.pdf'' (if isRetryable e2 then reset w s2 else s2) =
           (Inl e3, s3, ev3)"
  shows "outcome_of (retrieval_loop w blobId 0 s) = None"
proof -
  have lt: "0 < maxRetrievalAttempts" "0 + 1 < maxRetrievalAttempts"
    "0 + 1 + 1 < maxRetrievalAttempts" "\<not> 0 + 1 + 1 + 1 < maxRetrievalAttempts"
    by (simp_all add: maxRetrievalAttempts_def)
  note a = retrieval_loop_fail [OF lt(1) assms(1) refl refl]
  note b = retrieval_loop_fail [OF lt(2) assms(2) refl refl]
  note c = retrieval_loop_fail [OF lt(3) assms(3) refl refl]
  note d = retrieval_loop_done [OF lt(4)]
  show ?thesis
    by (simp add: a b [simplified] c [simplified] d [simplified])
qed

text \<open>
  C5, as amended. The library's \<open>uploadToWalrus\<close> never rejects. Its result is the
  mock id \<open>mock-blob-<Date.now()>-<random>\<close>, built in the state the failure left,
  when the temporary file cannot be written, when the child process fails, and when
  the output of the child process has no line that starts with \<open>Blob ID:\<close>; otherwise
  it is the rest of that line, trimmed. Downloads do not substitute:
  \<open>attemptDownload\<close> of the standalone script either succeeds or throws
  \<open>All retrieval attempts failed for blob ID: <blobId>\<close>; it throws it, after exactly
  two reads, when its two reads are rejected, and succeeds when the first retrieval or,
  after a failed first one, the second succeeds. The library's \<open>downloadFromWalrus\<close>
  throws \<open>Cannot download mock blob ID\<close> for a mock id, rethrows the error of a failed
  child process, throws \<open>Could not find downloaded file path\<close> when the output has no
  line that starts with \<open>File saved to:\<close>, rethrows the error of reading the file that
  line names, and otherwise returns the bytes of that file. The combined
  upload-and-verify script and \<open>downloadBlobById\<close>, however, never reject: when the
  upload has succeeded and every retrieval attempt has failed, \<open>main\<close> logs and
  returns normally, and \<open>downloadBlobById\<close> returns normally in every case.
\<close>

theorem failure_handling_asymmetry:
  "(\<exists>id. outcome_of (lib_uploadToWalrus h fileContents s) = Inr id) \<and>
   prefix ''mock-blob-'' (mockBlobId h s') \<and>
   (host_writeFileSync h (upload_ready h s) (tempFile h s) fileContents = (Inl e, s3) \<longrightarrow>
      outcome_of (lib_uploadToWalrus h fileContents s) = Inr (mockBlobId h s3)) \<and>
   (host_writeFileSync h (upload_ready h s) (tempFile h s) fileContents = (Inr (), s3) \<and>
    execAsync h s3 (upload_command h s) = (Inl e, s4) \<longrightarrow>
      outcome_of (lib_uploadToWalrus h fileContents s) = Inr (mockBlobId h s4)) \<and>
   (host_writeFileSync h (upload_ready h s) (tempFile h s) fileContents = (Inr (), s3) \<and>
    execAsync h s3 (upload_command h s) = (Inr (out, err), s4) \<and>
    find (\<lambda>line. startsWith line ''Blob ID:'') (split_on newline out) = None \<longrightarrow>
      outcome_of (lib_uploadToWalrus h fileContents s) =
        Inr (mockBlobId h (unlinkSync h s4 (tempFile h s)))) \<and>
   (host_writeFileSync h (upload_ready h s) (tempFile h s) fileContents = (Inr (), s3) \<and>
    execAsync h s3 (upload_command h s) = (Inr (out, err), s4) \<and>
    find (\<lambda>line. startsWith line ''Blob ID:'') (split_on newline out) = Some line \<longrightarrow>
      outcome_of (lib_uploadToWalrus h fileContents s) =
        Inr (trim (replace_first ''Blob ID:'' [] line))) \<and>
   (outcome_of (attemptDownload w t) = Inr () \<or>
    outcome_of (attemptDownload w t) =
      Inl (Error (''All retrieval attempts failed for blob ID: '' @ standalone_blobId))) \<and>
   (readBlob w (snd (getBlob w t standalone_blobId)) standalone_blobId = (Inl e1, t1) \<and>
    readBlob w (if isRetryable e1 then reset w t1 else t1) standalone_blobId = (Inl e2, t2) \<longrightarrow>
      outcome_of (attemptDownload w t) =
        Inl (Error (''All retrieval attempts failed for blob ID: '' @ standalone_blobId)) \<and>
      reads (effects_of (attemptDownload w t)) = 2) \<and>
   (try_retrieve w standalone_blobId ''downloaded_test.pdf''
      (snd (getBlob w t standalone_blobId)) = (Inr c, t1, ev1) \<longrightarrow>
      outcome_of (attemptDownload w t) = Inr ()) \<and>
   (try_retrieve w standalone_blobId ''downloaded_test.pdf''
      (snd (getBlob w t standalone_blobId)) = (Inl e1, t1, ev1) \<and>
    try_retrieve w standalone_blobId ''downloaded_test.pdf''
      (if isRetryable e1 then reset w t1 else t1) = (Inr c, t2, ev2) \<longrightarrow>
      outcome_of (attemptDownload w t) = Inr ()) \<and>
   (prefix ''mock-blob-'' blobId \<longrightarrow>
      outcome_of (lib_downloadFromWalrus h blobId s) = Inl (Error ''Cannot download mock blob ID'')) \<and>
   (\<not> prefix ''mock-blob-'' blobId \<and> execAsync h s (download_command h blobId) = (Inl e, s1) \<longrightarrow>
      outcome_of (lib_downloadFromWalrus h blobId s) = Inl e) \<and>
   (\<not> prefix ''mock-blob-'' blobId \<and>
    execAsync h s (download_command h blobId) = (Inr (out, err), s1) \<and>
    find (\<lambda>line. startsWith line ''File saved to:'') (split_on newline out) = None \<longrightarrow>
      outcome_of (lib_downloadFromWalrus h blobId s) =
        Inl (Error ''Could not find downloaded file path'')) \<and>
   (\<not> prefix ''mock-blob-'' blobId \<and>
    execAsync h s (download_command h blobId) = (Inr (out, err), s1) \<and>
    find (\<lambda>line. startsWith line ''File saved to:'') (split_on newline out) = Some line \<and>
    host_readFileSync h s1 (trim (replace_first ''File saved to:'' [] line)) = Inl e \<longrightarrow>
      outcome_of (lib_downloadFromWalrus h blobId s) = Inl e) \<and>
   (\<not> prefix ''mock-blob-'' blobId \<and>
    execAsync h s (download_command h blobId) = (Inr (out, err), s1) \<and>
    find (\<lambda>line. startsWith line ''File saved to:'') (split_on newline out) = Some line \<and>
    host_readFileSync h s1 (trim (replace_first ''File saved to:'' [] line)) = Inr bs \<longrightarrow>
      outcome_of (lib_downloadFromWalrus h blobId s) = Inr bs) \<and>
   (\<exists>r. outcome_of (main w t) = Inr r) \<and>
   (readFileSync w t ''./test.pdf'' = Inr pdf \<and>
    upload_loop w pdf 0 t = (Some r, u0, evu) \<and> result_blobId r \<noteq> [] \<and>
    try_retrieve w (result_blobId r) ''downloaded_clean.pdf'' u0 = (Inl f1, u1, ew1) \<and>
    try_retrieve w (result_blobId r) ''downloaded_clean.pdf''
      (if isRetryable f1 then reset w u1 else u1) = (Inl f2, u2, ew2) \<and>
    try_retrieve w (result_blobId r) ''downloaded_clean.pdf''
      (if isRetryable f2 then reset w u2 else u2) = (Inl f3, u3, ew3) \<longrightarrow>
      outcome_of (main w t) = Inr (RetrievalGaveUp (result_blobId r))) \<and>
   outcome_of (downloadBlobById w w' t) = Inr ()"
proof -
  note c1 = lib_upload_resolves [of h fileContents s]
  note c2 = mockBlobId_prefix [of h s']
  have c3: "host_writeFileSync h (upload_ready h s) (tempFile h s) fileContents = (Inl e, s3) \<longrightarrow>
      outcome_of (lib_uploadToWalrus h fileContents s) = Inr (mockBlobId h s3)"
    by (simp add: lib_upload_write_fails)
  have c4: "host_writeFileSync h (upload_ready h s) (tempFile h s) fileContents = (Inr (), s3) \<and>
    execAsync h s3 (upload_command h s) = (Inl e, s4) \<longrightarrow>
      outcome_of (lib_uploadToWalrus h fileContents s) = Inr (mockBlobId h s4)"
    by (simp add: lib_upload_exec_fails)
  have c5: "host_writeFileSync h (upload_ready h s) (tempFile h s) fileContents = (Inr (), s3) \<and>
    execAsync h s3 (upload_command h s) = (Inr (out, err), s4) \<and>
    find (\<lambda>line. startsWith line ''Blob ID:'') (split_on newline out) = None \<longrightarrow>
      outcome_of (lib_uploadToWalrus h fileContents s) =
        Inr (mockBlobId h (unlinkSync h s4 (tempFile h s)))"
    by (simp add: lib_upload_no_line)
  have c6: "host_writeFileSync h (upload_ready h s) (tempFile h s) fileContents = (Inr (), s3) \<and>
    execAsync h s3 (upload_command h s) = (Inr (out, err), s4) \<and>
    find (\<lambda>line. startsWith line ''Blob ID:'') (split_on newline out) = Some line \<longrightarrow>
      outcome_of (lib_uploadToWalrus h fileContents s) =
        Inr (trim (replace_first ''Blob ID:'' [] line))"
    by (simp add: lib_upload_line)
  have c7: "outcome_of (attemptDownload w t) = Inr () \<or>
    outcome_of (attemptDownload w t) =
      Inl (Error (''All retrieval attempts failed for blob ID: '' @ standalone_blobId))"
    unfolding attemptDownload_outcome by (rule attempt_loop_outcome)
  have c8: "readBlob w (snd (getBlob w t standalone_blobId)) standalone_blobId = (Inl e1, t1) \<and>
    readBlob w (if isRetryable e1 then reset w t1 else t1) standalone_blobId = (Inl e2, t2) \<longrightarrow>
      outcome_of (attemptDownload w t) =
        Inl (Error (''All retrieval attempts failed for blob ID: '' @ standalone_blobId)) \<and>
      reads (effects_of (attemptDownload w t)) = 2"
  proof
    assume a: "readBlob w (snd (getBlob w t standalone_blobId)) standalone_blobId = (Inl e1, t1) \<and>
      readBlob w (if isRetryable e1 then reset w t1 else t1) standalone_blobId = (Inl e2, t2)"
    note l = attempt_loop_both_fail [OF try_retrieve_read_fails [OF a [THEN conjunct1]]
        try_retrieve_read_fails [OF a [THEN conjunct2]]]
    show "outcome_of (attemptDownload w t) =
        Inl (Error (''All retrieval attempts failed for blob ID: '' @ standalone_blobId)) \<and>
      reads (effects_of (attemptDownload w t)) = 2"
      by (simp add: attemptDownload_outcome attemptDownload_effects l reads_simps)
  qed
  have c9: "try_retrieve w standalone_blobId ''downloaded_test.pdf''
      (snd (getBlob w t standalone_blobId)) = (Inr c, t1, ev1) \<longrightarrow>
      outcome_of (attemptDownload w t) = Inr ()"
    by (simp add: attemptDownload_outcome attempt_loop_first_ok)
  have c10: "try_retrieve w standalone_blobId ''downloaded_test.pdf''
      (snd (getBlob w t standalone_blobId)) = (Inl e1, t1, ev1) \<and>
    try_retrieve w standalone_blobId ''downloaded_test.pdf''
      (if isRetryable e1 then reset w t1 else t1) = (Inr c, t2, ev2) \<longrightarrow>
      outcome_of (attemptDownload w t) = Inr ()"
  proof
    assume a: "try_retrieve w standalone_blobId ''downloaded_test.pdf''
        (snd (getBlob w t standalone_blobId)) = (Inl e1, t1, ev1) \<and>
      try_retrieve w standalone_blobId ''downloaded_test.pdf''
        (if isRetryable e1 then reset w t1 else t1) = (Inr c, t2, ev2)"
    show "outcome_of (attemptDownload w t) = Inr ()"
      by (simp add: attemptDownload_outcome
            attempt_loop_second_ok [OF a [THEN conjunct1] a [THEN conjunct2]])
  qed
  have c11: "prefix ''mock-blob-'' blobId \<longrightarrow>
      outcome_of (lib_downloadFromWalrus h blobId s) = Inl (Error ''Cannot download mock blob ID'')"
    by (simp add: lib_downloadFromWalrus_def startsWith_def mock_prefix_def)
  have c12: "\<not> prefix ''mock-blob-'' blobId \<and>
      execAsync h s (download_command h blobId) = (Inl e, s1) \<longrightarrow>
      outcome_of (lib_downloadFromWalrus h blobId s) = Inl e"
    by (simp add: lib_downloadFromWalrus_def startsWith_def mock_prefix_def Let_def)
  have c13: "\<not> prefix ''mock-blob-'' blobId \<and>
    execAsync h s (download_command h blobId) = (Inr (out, err), s1) \<and>
    find (\<lambda>line. startsWith line ''File saved to:'') (split_on newline out) = None \<longrightarrow>
      outcome_of (lib_downloadFromWalrus h blobId s) =
        Inl (Error ''Could not find downloaded file path'')"
    by (simp add: lib_downloadFromWalrus_def startsWith_def mock_prefix_def Let_def)
  have c14: "\<not> prefix ''mock-blob-'' blobId \<and>
    execAsync h s (download_command h blobId) = (Inr (out, err), s1) \<and>
    find (\<lambda>line. startsWith line ''File saved to:'') (split_on newline out) = Some line \<and>
    host_readFileSync h s1 (trim (replace_first ''File saved to:'' [] line)) = Inl e \<longrightarrow>
      outcome_of (lib_downloadFromWalrus h blobId s) = Inl e"
    by (simp add: lib_downloadFromWalrus_def startsWith_def mock_prefix_def Let_def)
  have c15: "\<not> prefix ''mock-blob-'' blobId \<and>
    execAsync h s (download_command h blobId) = (Inr (out, err), s1) \<and>
    find (\<lambda>line. startsWith line ''File saved to:'') (split_on newline out) = Some line \<and>
    host_readFileSync h s1 (trim (replace_first ''File saved to:'' [] line)) = Inr bs \<longrightarrow>
      outcome_of (lib_downloadFromWalrus h blobId s) = Inr bs"
    by (simp add: lib_downloadFromWalrus_def startsWith_def mock_prefix_def Let_def)
  note c16 = main_resolves [of w t]
  have c17: "readFileSync w t ''./test.pdf'' = Inr pdf \<and>
    upload_loop w pdf 0 t = (Some r, u0, evu) \<and> result_blobId r \<noteq> [] \<and>
    try_retrieve w (result_blobId r) ''downloaded_clean.pdf'' u0 = (Inl f1, u1, ew1) \<and>
    try_retrieve w (result_blobId r) ''downloaded_clean.pdf''
      (if isRetryable f1 then reset w u1 else u1) = (Inl f2, u2, ew2) \<and>
    try_retrieve w (result_blobId r) ''downloaded_clean.pdf''
      (if isRetryable f2 then reset w u2 else u2) = (Inl f3, u3, ew3) \<longrightarrow>
      outcome_of (main w t) = Inr (RetrievalGaveUp (result_blobId r))"
  proof (intro impI, elim conjE)
    assume a: "readFileSync w t ''./test.pdf'' = Inr pdf"
      "upload_loop w pdf 0 t = (Some r, u0, evu)" "result_blobId r \<noteq> []"
      and b: "try_retrieve w (result_blobId r) ''downloaded_clean.pdf'' u0 = (Inl f1, u1, ew1)"
      "try_retrieve w (result_blobId r) ''downloaded_clean.pdf''
         (if isRetryable f1 then reset w u1 else u1) = (Inl f2, u2, ew2)"
      "try_retrieve w (result_blobId r) ''downloaded_clean.pdf''
         (if isRetryable f2 then reset w u2 else u2) = (Inl f3, u3, ew3)"
    from retrieval_loop_three_fail [OF b]
    have "outcome_of (retrieval_loop w (result_blobId r) 0 u0) = None" .
    with a show "outcome_of (main w t) = Inr (RetrievalGaveUp (result_blobId r))"
      by (auto simp: main_def split: prod.splits option.splits)
  qed
  note c18 = downloadBlobById_resolves [of w w' t]
  from c1 c2 c3 c4 c5 c6 c7 c8 c9 c10 c11 c12 c13 c14 c15 c16 c17 c18 show ?thesis
    by (intro conjI)
qed

lemma sim_upload_files:
  "upload_ready sim_host host_readonly = host_readonly"
  "upload_ready sim_host host_down = host_down"
  "upload_ready sim_host host_up = host_up"
  "upload_ready sim_host host_uploaded = host_uploaded"
  "tempFile sim_host host_readonly = ''/app/temp/upload-1700000000000-k3j9x8q2m.tmp''"
  "tempFile sim_host host_down = ''/app/temp/upload-1700000000000-k3j9x8q2m.tmp''"
  "tempFile sim_host host_up = ''/app/temp/upload-1700000000000-k3j9x8q2m.tmp''"
  "tempFile sim_host host_uploaded = ''/app/temp/upload-1700000000000-k3j9x8q2m.tmp''"
  by (simp_all add: sim_host_clock sim_host_times)

lemma sim_mock_ids:
  "mockBlobId sim_host host_readonly = ''mock-blob-1700000000000-k3j9x8q2m''"
  "mockBlobId sim_host (host_down\<lparr>hfiles := fs\<rparr>) = ''mock-blob-1700000000000-k3j9x8q2m''"
  "mockBlobId sim_host (unlinkSync sim_host (host_up\<lparr>hfiles := fs\<rparr>) f) =
     ''mock-blob-1700000000000-k3j9x8q2m''"
  by (simp_all add: sim_host_clock sim_host_times)

lemma sim_download_lines:
  "find (\<lambda>line. startsWith line ''File saved to:'')
     (split_on newline (''Blob ID: abc'' @ [newline])) = None"
  "find (\<lambda>line. startsWith line ''File saved to:'')
     (split_on newline (''File saved to: /app/scripts/downloaded-abc.bin'' @ [newline])) =
     Some ''File saved to: /app/scripts/downloaded-abc.bin''"
  "host_readFileSync sim_host (host_up\<lparr>hfiles := []\<rparr>) ''/app/scripts/downloaded-abc.bin'' =
     Inl (FsError ''ENOENT'')"
  "host_readFileSync sim_host host_up ''/app/scripts/downloaded-abc.bin'' = Inr [1, 2, 3]"
  by (simp_all add: startsWith_def newline_def sim_host_def host_up_def)

lemma second_read_ok_tries:
  "try_retrieve scripted standalone_blobId ''downloaded_test.pdf''
     (snd (getBlob scripted second_read_ok standalone_blobId)) =
     (Inl (SdkError ''not enough slivers''), second_read_ok\<lparr>read_outcomes := [Inr [1, 2, 3]]\<rparr>,
      [ReadBlob standalone_blobId])"
  "\<not> isRetryable (SdkError ''not enough slivers'')"
  "try_retrieve scripted standalone_blobId ''downloaded_test.pdf''
     (second_read_ok\<lparr>read_outcomes := [Inr [1, 2, 3]]\<rparr>) =
     (Inr [1, 2, 3],
      second_read_ok\<lparr>read_outcomes := [], sim_files := [(''downloaded_test.pdf'', [1, 2, 3])]\<rparr>,
      [ReadBlob standalone_blobId, WriteFile ''downloaded_test.pdf'' [1, 2, 3]])"
  "snd (getBlob scripted (second_read_ok\<lparr>read_outcomes := [Inr [1, 2, 3]]\<rparr>) standalone_blobId) =
     second_read_ok\<lparr>read_outcomes := [Inr [1, 2, 3]]\<rparr>"
  by (simp_all add: try_retrieve_def scripted_def second_read_ok_def)

lemma stored_but_unreadable_steps:
  "readFileSync scripted stored_but_unreadable ''./test.pdf'' = Inr [37, 80, 68, 70]"
  "upload_loop scripted [37, 80, 68, 70] 0 stored_but_unreadable =
     (Some \<lparr>result_blobId = ''blob-1''\<rparr>, stored_but_unreadable\<lparr>write_outcomes := []\<rparr>,
      [WriteBlob [37, 80, 68, 70]])"
  "try_retrieve scripted ''blob-1'' ''downloaded_clean.pdf''
     (stored_but_unreadable\<lparr>write_outcomes := []\<rparr>) =
     (Inl (SdkError ''not enough slivers''),
      stored_but_unreadable\<lparr>write_outcomes := [],
        read_outcomes := [Inl (SdkError ''not enough slivers''), Inl (SdkError ''not enough slivers'')]\<rparr>,
      [ReadBlob ''blob-1''])"
  "try_retrieve scripted ''blob-1'' ''downloaded_clean.pdf''
     (stored_but_unreadable\<lparr>write_outcomes := [],
        read_outcomes := [Inl (SdkError ''not enough slivers''), Inl (SdkError ''not enough slivers'')]\<rparr>) =
     (Inl (SdkError ''not enough slivers''),
      stored_but_unreadable\<lparr>write_outcomes := [],
        read_outcomes := [Inl (SdkError ''not enough slivers'')]\<rparr>,
      [ReadBlob ''blob-1''])"
  "try_retrieve scripted ''blob-1'' ''downloaded_clean.pdf''
     (stored_but_unreadable\<lparr>write_outcomes := [],
        read_outcomes := [Inl (SdkError ''not enough slivers'')]\<rparr>) =
     (Inl (SdkError ''not enough slivers''),
      stored_but_unreadable\<lparr>write_outcomes := [], read_outcomes := []\<rparr>,
      [ReadBlob ''blob-1''])"
  by (simp_all add: upload_loop.simps try_retrieve_def scripted_def stored_but_unreadable_def
        maxAttempts_def)

theorem failure_handling_asymmetry_witness:
  "host_writeFileSync sim_host (upload_ready sim_host host_readonly)
     (tempFile sim_host host_readonly) [1, 2, 3] = (Inl (FsError ''EACCES''), host_readonly) \<and>
   outcome_of (lib_uploadToWalrus sim_host [1, 2, 3] host_readonly) =
     Inr ''mock-blob-1700000000000-k3j9x8q2m'' \<and>
   execAsync sim_host
     (host_down\<lparr>hfiles := [(''/app/temp/upload-1700000000000-k3j9x8q2m.tmp'', [1, 2, 3])]\<rparr>)
     (upload_command sim_host host_down) =
     (Inl (ExecError ''Command failed''),
      host_down\<lparr>hfiles := [(''/app/temp/upload-1700000000000-k3j9x8q2m.tmp'', [1, 2, 3])]\<rparr>) \<and>
   outcome_of (lib_uploadToWalrus sim_host [1, 2, 3] host_down) =
     Inr ''mock-blob-1700000000000-k3j9x8q2m'' \<and>
   find (\<lambda>line. startsWith line ''Blob ID:'')
     (split_on newline (''File saved to: /app/scripts/downloaded-abc.bin'' @ [newline])) = None \<and>
   outcome_of (lib_uploadToWalrus sim_host [1, 2, 3] host_up) =
     Inr ''mock-blob-1700000000000-k3j9x8q2m'' \<and>
   find (\<lambda>line. startsWith line ''Blob ID:'') (split_on newline (''Blob ID: abc'' @ [newline])) =
     Some ''Blob ID: abc'' \<and>
   outcome_of (lib_uploadToWalrus sim_host [1, 2, 3] host_uploaded) = Inr ''abc'' \<and>
   readBlob scripted (snd (getBlob scripted unreachable standalone_blobId)) standalone_blobId =
     (Inl (RetryableWalrusClientError ''timeout''),
      unreachable\<lparr>read_outcomes :=
        [Inl (RetryableWalrusClientError ''timeout''), Inl (RetryableWalrusClientError ''timeout''),
         Inl (RetryableWalrusClientError ''timeout'')]\<rparr>) \<and>
   outcome_of (attemptDownload scripted unreachable) =
     Inl (Error (''All retrieval attempts failed for blob ID: '' @ standalone_blobId)) \<and>
   reads (effects_of (attemptDownload scripted unreachable)) = 2 \<and>
   outcome_of (attemptDownload scripted (second_read_ok\<lparr>read_outcomes := [Inr [1, 2, 3]]\<rparr>)) =
     Inr () \<and>
   outcome_of (attemptDownload scripted second_read_ok) = Inr () \<and>
   prefix ''mock-blob-'' ''mock-blob-123'' \<and>
   outcome_of (lib_downloadFromWalrus sim_host ''mock-blob-123'' host_up) =
     Inl (Error ''Cannot download mock blob ID'') \<and>
   \<not> prefix ''mock-blob-'' ''abc'' \<and>
   execAsync sim_host host_down (download_command sim_host ''abc'') =
     (Inl (ExecError ''Command failed''), host_down) \<and>
   outcome_of (lib_downloadFromWalrus sim_host ''abc'' host_down) =
     Inl (ExecError ''Command failed'') \<and>
   outcome_of (lib_downloadFromWalrus sim_host ''abc'' host_uploaded) =
     Inl (Error ''Could not find downloaded file path'') \<and>
   outcome_of (lib_downloadFromWalrus sim_host ''abc'' (host_up\<lparr>hfiles := []\<rparr>)) =
     Inl (FsError ''ENOENT'') \<and>
   outcome_of (lib_downloadFromWalrus sim_host ''abc'' host_up) = Inr [1, 2, 3] \<and>
   readFileSync scripted stored_but_unreadable ''./test.pdf'' = Inr [37, 80, 68, 70] \<and>
   upload_loop scripted [37, 80, 68, 70] 0 stored_but_unreadable =
     (Some \<lparr>result_blobId = ''blob-1''\<rparr>, stored_but_unreadable\<lparr>write_outcomes := []\<rparr>,
      [WriteBlob [37, 80, 68, 70]]) \<and>
   outcome_of (main scripted stored_but_unreadable) = Inr (RetrievalGaveUp ''blob-1'')"
proof -
  note t = failure_handling_asymmetry
  note t3 = t [THEN conjunct2, THEN conjunct2, THEN conjunct1]
  note t4 = t [THEN conjunct2, THEN conjunct2, THEN conjunct2, THEN conjunct1]
  note t5 = t [THEN conjunct2, THEN conjunct2, THEN conjunct2, THEN conjunct2, THEN conjunct1]
  note t6 = t [THEN conjunct2, THEN conjunct2, THEN conjunct2, THEN conjunct2, THEN conjunct2,
      THEN conjunct1]
  note t7 = t [THEN conjunct2, THEN conjunct2, THEN conjunct2, THEN conjunct2, THEN conjunct2,
      THEN conjunct2, THEN conjunct2]
  note t8 = t7 [THEN conjunct1]
  note t9 = t7 [THEN conjunct2, THEN conjunct1]
  note t10 = t7 [THEN conjunct2, THEN conjunct2, THEN conjunct1]
  note t11 = t7 [THEN conjunct2, THEN conjunct2, THEN conjunct2, THEN conjunct1]
  note t12 = t7 [THEN conjunct2, THEN conjunct2, THEN conjunct2, THEN conjunct2, THEN conjunct1]
  note t13 = t7 [THEN conjunct2, THEN conjunct2, THEN conjunct2, THEN conjunct2, THEN conjunct2,
      THEN conjunct1]
  note t14 = t7 [THEN conjunct2, THEN conjunct2, THEN conjunct2, THEN conjunct2, THEN conjunct2,
      THEN conjunct2, THEN conjunct1]
  note t15 = t7 [THEN conjunct2, THEN conjunct2, THEN conjunct2, THEN conjunct2, THEN conjunct2,
      THEN conjunct2, THEN conjunct2, THEN conjunct1]
  note t17 = t7 [THEN conjunct2, THEN conjunct2, THEN conjunct2, THEN conjunct2, THEN conjunct2,
      THEN conjunct2, THEN conjunct2, THEN conjunct2, THEN conjunct2, THEN conjunct1]
  note f = sim_upload_files
  let ?tf = "''/app/temp/upload-1700000000000-k3j9x8q2m.tmp''"
  let ?saved = "''File saved to: /app/scripts/downloaded-abc.bin''"
  have w1: "host_writeFileSync sim_host (upload_ready sim_host host_readonly)
     (tempFile sim_host host_readonly) [1, 2, 3] = (Inl (FsError ''EACCES''), host_readonly)"
    by (simp add: f sim_host_runs)
  have r1: "outcome_of (lib_uploadToWalrus sim_host [1, 2, 3] host_readonly) =
     Inr ''mock-blob-1700000000000-k3j9x8q2m''"
  proof -
    have "outcome_of (lib_uploadToWalrus sim_host [1, 2, 3] host_readonly) =
        Inr (mockBlobId sim_host host_readonly)"
      by (rule t3 [THEN mp]) (rule w1)
    then show ?thesis by (simp add: sim_mock_ids)
  qed
  have w2: "host_writeFileSync sim_host (upload_ready sim_host host_down)
     (tempFile sim_host host_down) [1, 2, 3] = (Inr (), host_down\<lparr>hfiles := [(?tf, [1, 2, 3])]\<rparr>)"
    by (simp add: f sim_host_runs)
  have x2: "execAsync sim_host (host_down\<lparr>hfiles := [(?tf, [1, 2, 3])]\<rparr>)
      (upload_command sim_host host_down) =
      (Inl (ExecError ''Command failed''), host_down\<lparr>hfiles := [(?tf, [1, 2, 3])]\<rparr>)"
    by (simp add: sim_host_runs)
  have r2: "outcome_of (lib_uploadToWalrus sim_host [1, 2, 3] host_down) =
     Inr ''mock-blob-1700000000000-k3j9x8q2m''"
  proof -
    have "outcome_of (lib_uploadToWalrus sim_host [1, 2, 3] host_down) =
        Inr (mockBlobId sim_host (host_down\<lparr>hfiles := [(?tf, [1, 2, 3])]\<rparr>))"
      by (rule t4 [THEN mp]) (rule conjI [OF w2 x2])
    then show ?thesis by (simp add: sim_mock_ids)
  qed
  let ?up = "host_up\<lparr>hfiles := [(?tf, [1, 2, 3]), (''/app/scripts/downloaded-abc.bin'', [1, 2, 3])]\<rparr>"
  have w3: "host_writeFileSync sim_host (upload_ready sim_host host_up)
     (tempFile sim_host host_up) [1, 2, 3] = (Inr (), ?up)"
    by (simp add: f sim_host_runs)
  have x3: "execAsync sim_host ?up (upload_command sim_host host_up) =
      (Inr (?saved @ [newline], []), ?up)"
    by (simp add: sim_host_runs)
  note l3 = sim_host_lines(1)
  have r3: "outcome_of (lib_uploadToWalrus sim_host [1, 2, 3] host_up) =
     Inr ''mock-blob-1700000000000-k3j9x8q2m''"
  proof -
    have "outcome_of (lib_uploadToWalrus sim_host [1, 2, 3] host_up) =
        Inr (mockBlobId sim_host (unlinkSync sim_host ?up (tempFile sim_host host_up)))"
      by (rule t5 [THEN mp]) (rule conjI [OF w3 conjI [OF x3 l3]])
    then show ?thesis by (simp add: sim_mock_ids)
  qed
  let ?ul = "host_uploaded\<lparr>hfiles := [(?tf, [1, 2, 3])]\<rparr>"
  have w4: "host_writeFileSync sim_host (upload_ready sim_host host_uploaded)
     (tempFile sim_host host_uploaded) [1, 2, 3] = (Inr (), ?ul)"
    by (simp add: f sim_host_runs)
  have x4: "execAsync sim_host ?ul (upload_command sim_host host_uploaded) =
      (Inr (''Blob ID: abc'' @ [newline], []), ?ul)"
    by (simp add: sim_host_runs)
  note l4 = sim_host_lines(2)
  have r4: "outcome_of (lib_uploadToWalrus sim_host [1, 2, 3] host_uploaded) = Inr ''abc''"
  proof -
    have "outcome_of (lib_uploadToWalrus sim_host [1, 2, 3] host_uploaded) =
        Inr (trim (replace_first ''Blob ID:'' [] ''Blob ID: abc''))"
      by (rule t6 [THEN mp]) (rule conjI [OF w4 conjI [OF x4 l4]])
    then show ?thesis unfolding sim_host_lines(3) .
  qed
  note u = unreachable_reads
  let ?timeout = "RetryableWalrusClientError ''timeout''"
  let ?v1 = "unreachable\<lparr>read_outcomes := [Inl ?timeout, Inl ?timeout, Inl ?timeout]\<rparr>"
  let ?v2 = "unreachable\<lparr>read_outcomes := [Inl ?timeout, Inl ?timeout], resets := 1\<rparr>"
  have r5: "outcome_of (attemptDownload scripted unreachable) =
     Inl (Error (''All retrieval attempts failed for blob ID: '' @ standalone_blobId)) \<and>
     reads (effects_of (attemptDownload scripted unreachable)) = 2"
  proof -
    have u2: "readBlob scripted (if isRetryable ?timeout then reset scripted ?v1 else ?v1)
        standalone_blobId = (Inl ?timeout, ?v2)"
      using u(2) by simp
    show ?thesis
      by (rule t8 [THEN mp]) (rule conjI [OF u(1) u2])
  qed
  note q = second_read_ok_tries
  let ?q1 = "second_read_ok\<lparr>read_outcomes := [Inr [1, 2, 3]]\<rparr>"
  let ?q2 = "second_read_ok\<lparr>read_outcomes := [],
               sim_files := [(''downloaded_test.pdf'', [1, 2, 3])]\<rparr>"
  let ?qev = "[ReadBlob standalone_blobId, WriteFile ''downloaded_test.pdf'' [1, 2, 3]]"
  have r6: "outcome_of (attemptDownload scripted ?q1) = Inr ()"
  proof -
    have a: "try_retrieve scripted standalone_blobId ''downloaded_test.pdf''
        (snd (getBlob scripted ?q1 standalone_blobId)) = (Inr [1, 2, 3], ?q2, ?qev)"
      using q(3) q(4) by simp
    show ?thesis
      by (rule t9 [THEN mp]) (rule a)
  qed
  have r7: "outcome_of (attemptDownload scripted second_read_ok) = Inr ()"
  proof -
    have a: "try_retrieve scripted standalone_blobId ''downloaded_test.pdf''
        (if isRetryable (SdkError ''not enough slivers'') then reset scripted ?q1 else ?q1) =
       (Inr [1, 2, 3], ?q2, ?qev)"
      using q(2) q(3) by simp
    show ?thesis
      by (rule t10 [THEN mp]) (rule conjI [OF q(1) a])
  qed
  have p: "prefix ''mock-blob-'' ''mock-blob-123''" "\<not> prefix ''mock-blob-'' ''abc''"
    by simp_all
  have r8: "outcome_of (lib_downloadFromWalrus sim_host ''mock-blob-123'' host_up) =
     Inl (Error ''Cannot download mock blob ID'')"
    by (rule t11 [THEN mp]) (rule p(1))
  have x9: "execAsync sim_host host_down (download_command sim_host ''abc'') =
     (Inl (ExecError ''Command failed''), host_down)"
    "execAsync sim_host host_uploaded (download_command sim_host ''abc'') =
     (Inr (''Blob ID: abc'' @ [newline], []), host_uploaded)"
    "execAsync sim_host (host_up\<lparr>hfiles := []\<rparr>) (download_command sim_host ''abc'') =
     (Inr (?saved @ [newline], []), host_up\<lparr>hfiles := []\<rparr>)"
    "execAsync sim_host host_up (download_command sim_host ''abc'') =
     (Inr (?saved @ [newline], []), host_up)"
    by (simp_all add: sim_host_def host_down_def host_uploaded_def host_up_def)
  note dl = sim_download_lines
  have r9: "outcome_of (lib_downloadFromWalrus sim_host ''abc'' host_down) =
     Inl (ExecError ''Command failed'')"
    by (rule t12 [THEN mp]) (rule conjI [OF p(2) x9(1)])
  have r10: "outcome_of (lib_downloadFromWalrus sim_host ''abc'' host_uploaded) =
     Inl (Error ''Could not find downloaded file path'')"
    by (rule t13 [THEN mp]) (rule conjI [OF p(2) conjI [OF x9(2) dl(1)]])
  have tr: "trim (replace_first ''File saved to:'' [] ?saved) = ''/app/scripts/downloaded-abc.bin''"
    by (rule trim_saved_line)
  have r11: "outcome_of (lib_downloadFromWalrus sim_host ''abc'' (host_up\<lparr>hfiles := []\<rparr>)) =
     Inl (FsError ''ENOENT'')"
  proof -
    from dl(3) tr have rd: "host_readFileSync sim_host (host_up\<lparr>hfiles := []\<rparr>)
        (trim (replace_first ''File saved to:'' [] ?saved)) = Inl (FsError ''ENOENT'')"
      by simp
    show ?thesis
      by (rule t14 [THEN mp]) (rule conjI [OF p(2) conjI [OF x9(3) conjI [OF dl(2) rd]]])
  qed
  have r12: "outcome_of (lib_downloadFromWalrus sim_host ''abc'' host_up) = Inr [1, 2, 3]"
  proof -
    from dl(4) tr have rd: "host_readFileSync sim_host host_up
        (trim (replace_first ''File saved to:'' [] ?saved)) = Inr [1, 2, 3]"
      by simp
    show ?thesis
      by (rule t15 [THEN mp]) (rule conjI [OF p(2) conjI [OF x9(4) conjI [OF dl(2) rd]]])
  qed
  note m = stored_but_unreadable_steps
  have r13: "outcome_of (main scripted stored_but_unreadable) = Inr (RetrievalGaveUp ''blob-1'')"
  proof -
    have nr: "\<not> isRetryable (SdkError ''not enough slivers'')" by simp
    let ?r = "\<lparr>result_blobId = ''blob-1''\<rparr>"
    let ?u0 = "stored_but_unreadable\<lparr>write_outcomes := []\<rparr>"
    let ?u1 = "stored_but_unreadable\<lparr>write_outcomes := [],
        read_outcomes := [Inl (SdkError ''not enough slivers''), Inl (SdkError ''not enough slivers'')]\<rparr>"
    let ?u2 = "stored_but_unreadable\<lparr>write_outcomes := [],
        read_outcomes := [Inl (SdkError ''not enough slivers'')]\<rparr>"
    let ?u3 = "stored_but_unreadable\<lparr>write_outcomes := [], read_outcomes := []\<rparr>"
    have h0: "upload_loop scripted [37, 80, 68, 70] 0 stored_but_unreadable =
        (Some ?r, ?u0, [WriteBlob [37, 80, 68, 70]])"
      by (rule m(2))
    have h1: "result_blobId ?r \<noteq> []" by simp
    have h2: "try_retrieve scripted (result_blobId ?r) ''downloaded_clean.pdf'' ?u0 =
        (Inl (SdkError ''not enough slivers''), ?u1, [ReadBlob ''blob-1''])"
      using m(3) by simp
    have h3: "try_retrieve scripted (result_blobId ?r) ''downloaded_clean.pdf''
        (if isRetryable (SdkError ''not enough slivers'') then reset scripted ?u1 else ?u1) =
        (Inl (SdkError ''not enough slivers''), ?u2, [ReadBlob ''blob-1''])"
      using m(4) nr by simp
    have h4: "try_retrieve scripted (result_blobId ?r) ''downloaded_clean.pdf''
        (if isRetryable (SdkError ''not enough slivers'') then reset scripted ?u2 else ?u2) =
        (Inl (SdkError ''not enough slivers''), ?u3, [ReadBlob ''blob-1''])"
      using m(5) nr by simp
    have "outcome_of (main scripted stored_but_unreadable) = Inr (RetrievalGaveUp (result_blobId ?r))"
      by (rule t17 [THEN mp]) (rule conjI [OF m(1) conjI [OF h0 conjI [OF h1 conjI [OF h2 conjI [OF h3 h4]]]]])
    then show ?thesis by simp
  qed
  from w1 r1 x2 r2 l3 r3 l4 r4 u(1) r5 r6 r7 p r8 x9(1) r9 r10 r11 r12 m(1) m(2) r13
  show ?thesis by (intro conjI) (erule conjunct1 conjunct2 | assumption)+
qed

lemma stored_but_unreadable_main:
  "main scripted stored_but_unreadable =
     (Inr (RetrievalGaveUp ''blob-1''),
      stored_but_unreadable\<lparr>write_outcomes := [], read_outcomes := []\<rparr>,
      [WriteBlob [37, 80, 68, 70], Sleep 8000,
       ReadBlob ''blob-1'', Sleep 5000, ReadBlob ''blob-1'', Sleep 10000, ReadBlob ''blob-1''])"
  by (simp add: main_def upload_loop.simps retrieval_loop.simps try_retrieve_def scripted_def
        stored_but_unreadable_def maxAttempts_def maxRetrievalAttempts_def)

text \<open>
  C5 as stated fails on the combined script: with the upload done and all three reads
  rejected, \<open>main\<close> returns normally; and \<open>downloadBlobById\<close> returns normally although
  both of its approaches have thrown.
\<close>

theorem combined_script_swallows_exhaustion:
  "outcome_of (main scripted stored_but_unreadable) = Inr (RetrievalGaveUp ''blob-1'') \<and>
   reads (effects_of (main scripted stored_but_unreadable)) = 3 \<and>
   read_outcomes (state_of (main scripted stored_but_unreadable)) = [] \<and>
   outcome_of (attemptDownload scripted unreachable) =
     Inl (Error (''All retrieval attempts failed for blob ID: '' @ standalone_blobId)) \<and>
   outcome_of (downloadBlobById scripted scripted unreachable) = Inr ()"
  by (simp add: stored_but_unreadable_main unreachable_attempt downloadBlobById_resolves
        reads_def)

section \<open>Facts about the signing credential\<close>





















section \<open>Facts about the round trip and the command line\<close>

text \<open>
  C8. When the network is healthy, that is, \<open>writeBlob\<close> of the bytes \<open>B\<close> resolves to a
  non-empty blob id and \<open>readBlob\<close> of that id then resolves to \<open>B\<close>, uploading the
  file that holds \<open>B\<close> and downloading the returned id gives back exactly \<open>B\<close>: the
  upload hands the file's bytes to \<open>writeBlob\<close> unchanged, in one attempt, and the
  download returns what \<open>readBlob\<close> resolved to, unchanged.
\<close>

theorem download_upload_roundtrip:
  assumes "readFileSync w s filePath = Inr B"
    and "writeBlob w s B = (Inr r, s1)"
    and "result_blobId r \<noteq> []"
    and "readBlob w s1 (result_blobId r) = (Inr B, s2)"
  shows "uploadToWalrus w filePath s = (Inr (result_blobId r), s1, [WriteBlob B]) \<and>
         downloadFromWalrus w (result_blobId r) (state_of (uploadToWalrus w filePath s)) =
           (Inr B, s2, [ReadBlob (result_blobId r)]) \<and>
         (\<exists>blobId. outcome_of (uploadToWalrus w filePath s) = Inr blobId \<and>
            outcome_of (downloadFromWalrus w blobId (state_of (uploadToWalrus w filePath s))) =
              Inr B)"
proof -
  have lt: "0 < maxAttempts" by (simp add: maxAttempts_def)
  have up: "uploadToWalrus w filePath s = (Inr (result_blobId r), s1, [WriteBlob B])"
    using assms by (simp add: uploadToWalrus_def upload_loop_ok [OF lt assms(2)])
  have down: "downloadFromWalrus w (result_blobId r) s1 = (Inr B, s2, [ReadBlob (result_blobId r)])"
    using assms(4) by (simp add: downloadFromWalrus_def)
  from up down show ?thesis by simp
qed

lemma mkid_7: "mkid 7 = ''blob-7''"
  by (simp add: mkid_def show_nat.simps)

theorem download_upload_roundtrip_witness:
  "readFileSync (healthy mkid) one_file ''/tmp/in.bin'' = Inr [1, 2, 3, 4, 5] \<and>
   result_blobId \<lparr>result_blobId = ''blob-7''\<rparr> \<noteq> [] \<and>
   outcome_of (uploadToWalrus (healthy mkid) ''/tmp/in.bin'' one_file) = Inr ''blob-7'' \<and>
   outcome_of (downloadFromWalrus (healthy mkid) ''blob-7''
     (state_of (uploadToWalrus (healthy mkid) ''/tmp/in.bin'' one_file))) = Inr [1, 2, 3, 4, 5]"
proof -
  define s1 where "s1 = one_file\<lparr>blobs := [(''blob-7'', [1, 2, 3, 4, 5])], issued := 8\<rparr>"
  have a: "readFileSync (healthy mkid) one_file ''/tmp/in.bin'' = Inr [1, 2, 3, 4, 5]"
    by (simp add: healthy_def one_file_def)
  have b: "writeBlob (healthy mkid) one_file [1, 2, 3, 4, 5] = (Inr \<lparr>result_blobId = ''blob-7''\<rparr>, s1)"
    by (simp add: healthy_def one_file_def s1_def mkid_7)
  have c: "result_blobId \<lparr>result_blobId = ''blob-7''\<rparr> \<noteq> []" by simp
  have d: "readBlob (healthy mkid) s1 (result_blobId \<lparr>result_blobId = ''blob-7''\<rparr>) =
      (Inr [1, 2, 3, 4, 5], s1)"
    by (simp add: healthy_def one_file_def s1_def)
  from download_upload_roundtrip [OF a b c d] a c show ?thesis by auto
qed


lemma keypair_nonempty: "truthy secretKey \<Longrightarrow> \<exists>sk. secretKey = Some sk \<and> sk \<noteq> []"
  by (cases secretKey) simp_all





lemma party_not_prefixed:
  "\<not> prefix ''Blob ID:'' (party @ rest)" "\<not> prefix ''File saved to:'' (party @ rest)"
  by (simp_all add: party_def)














section \<open>Facts about the contract service\<close>

text \<open>
  C10. The six guarded queries of \<open>ContractService\<close> never reject, whatever the
  contract call does: each resolves to a value, and when the contract call is rejected
  the value is the empty array, \<open>false\<close> or \<open>0\<close>, which is also what the query returns
  for a contract that answers with an empty array, \<open>false\<close> or zero.
\<close>

theorem read_queries_never_reject:
  "(\<exists>v. getActiveItems Number contract offset limit = Inr v) \<and>
   (\<exists>v. getUserItems Number contract userAddress = Inr v) \<and>
   (\<exists>v. getUserRentals Number contract userAddress = Inr v) \<and>
   (\<exists>v. hasActiveRental contract itemId userAddress = Inr v) \<and>
   (\<exists>v. getTotalItems Number0 contract = Inr v) \<and>
   (\<exists>v. getTotalRentals Number0 contract = Inr v) \<and>
   (c_getActiveItems contract (case offset of None \<Rightarrow> 0 | Some x \<Rightarrow> x)
      (case limit of None \<Rightarrow> 20 | Some x \<Rightarrow> x) = Inl e \<longrightarrow>
      getActiveItems Number contract offset limit = Inr []) \<and>
   (c_getUserItems contract userAddress = Inl e \<longrightarrow>
      getUserItems Number contract userAddress = Inr []) \<and>
   (c_getUserRentals contract userAddress = Inl e \<longrightarrow>
      getUserRentals Number contract userAddress = Inr []) \<and>
   (c_hasActiveRental contract itemId userAddress = Inl e \<longrightarrow>
      hasActiveRental contract itemId userAddress = Inr False) \<and>
   (c_getTotalItems contract = Inl e \<longrightarrow> getTotalItems Number0 contract = Inr 0) \<and>
   (c_getTotalRentals contract = Inl e \<longrightarrow> getTotalRentals Number0 contract = Inr 0) \<and>
   (c_getActiveItems contract' (case offset of None \<Rightarrow> 0 | Some x \<Rightarrow> x)
      (case limit of None \<Rightarrow> 20 | Some x \<Rightarrow> x) = Inr [] \<longrightarrow>
      getActiveItems Number contract' offset limit = Inr []) \<and>
   (c_getUserItems contract' userAddress = Inr [] \<longrightarrow>
      getUserItems Number contract' userAddress = Inr []) \<and>
   (c_getUserRentals contract' userAddress = Inr [] \<longrightarrow>
      getUserRentals Number contract' userAddress = Inr []) \<and>
   (c_hasActiveRental contract' itemId userAddress = Inr False \<longrightarrow>
      hasActiveRental contract' itemId userAddress = Inr False) \<and>
   (c_getTotalItems contract' = Inr 0 \<and> Number0 0 = 0 \<longrightarrow>
      getTotalItems Number0 contract' = Inr 0) \<and>
   (c_getTotalRentals contract' = Inr 0 \<and> Number0 0 = 0 \<longrightarrow>
      getTotalRentals Number0 contract' = Inr 0)"
proof -
  have t1: "\<exists>v. getActiveItems Number contract offset limit = Inr v"
    by (simp add: getActiveItems_def split: sum.splits)
  have t2: "\<exists>v. getUserItems Number contract userAddress = Inr v"
    by (simp add: getUserItems_def split: sum.splits)
  have t3: "\<exists>v. getUserRentals Number contract userAddress = Inr v"
    by (simp add: getUserRentals_def split: sum.splits)
  have t4: "\<exists>v. hasActiveRental contract itemId userAddress = Inr v"
    by (cases "c_hasActiveRental contract itemId userAddress") (auto simp: hasActiveRental_def)
  have t5: "\<exists>v. getTotalItems Number0 contract = Inr v"
    by (simp add: getTotalItems_def split: sum.splits)
  have t6: "\<exists>v. getTotalRentals Number0 contract = Inr v"
    by (simp add: getTotalRentals_def split: sum.splits)
  have f: "c_getActiveItems contract (case offset of None \<Rightarrow> 0 | Some x \<Rightarrow> x)
        (case limit of None \<Rightarrow> 20 | Some x \<Rightarrow> x) = Inl e \<longrightarrow>
        getActiveItems Number contract offset limit = Inr []"
    "c_getUserItems contract userAddress = Inl e \<longrightarrow>
        getUserItems Number contract userAddress = Inr []"
    "c_getUserRentals contract userAddress = Inl e \<longrightarrow>
        getUserRentals Number contract userAddress = Inr []"
    "c_hasActiveRental contract itemId userAddress = Inl e \<longrightarrow>
        hasActiveRental contract itemId userAddress = Inr False"
    "c_getTotalItems contract = Inl e \<longrightarrow> getTotalItems Number0 contract = Inr 0"
    "c_getTotalRentals contract = Inl e \<longrightarrow> getTotalRentals Number0 contract = Inr 0"
    by (simp_all add: getActiveItems_def getUserItems_def getUserRentals_def
          hasActiveRental_def getTotalItems_def getTotalRentals_def)
  have g: "c_getActiveItems contract' (case offset of None \<Rightarrow> 0 | Some x \<Rightarrow> x)
        (case limit of None \<Rightarrow> 20 | Some x \<Rightarrow> x) = Inr [] \<longrightarrow>
        getActiveItems Number contract' offset limit = Inr []"
    "c_getUserItems contract' userAddress = Inr [] \<longrightarrow>
        getUserItems Number contract' userAddress = Inr []"
    "c_getUserRentals contract' userAddress = Inr [] \<longrightarrow>
        getUserRentals Number contract' userAddress = Inr []"
    "c_hasActiveRental contract' itemId userAddress = Inr False \<longrightarrow>
        hasActiveRental contract' itemId userAddress = Inr False"
    "c_getTotalItems contract' = Inr 0 \<and> Number0 0 = 0 \<longrightarrow>
        getTotalItems Number0 contract' = Inr 0"
    "c_getTotalRentals contract' = Inr 0 \<and> Number0 0 = 0 \<longrightarrow>
        getTotalRentals Number0 contract' = Inr 0"
    by (simp_all add: getActiveItems_def getUserItems_def getUserRentals_def
          hasActiveRental_def getTotalItems_def getTotalRentals_def)
  from t1 t2 t3 t4 t5 t6 f g show ?thesis by blast
qed

theorem read_queries_never_reject_witness:
  "c_getActiveItems rpc_down 0 20 = Inl (SdkError ''could not detect network'') \<and>
   getActiveItems exact rpc_down None None = Inr [] \<and>
   getActiveItems exact empty_chain None None = Inr [] \<and>
   getUserItems exact rpc_down ''0xabc'' = Inr [] \<and>
   getUserItems exact empty_chain ''0xabc'' = Inr [] \<and>
   getUserRentals exact rpc_down ''0xabc'' = Inr [] \<and>
   getUserRentals exact empty_chain ''0xabc'' = Inr [] \<and>
   hasActiveRental rpc_down 1 ''0xabc'' = Inr False \<and>
   hasActiveRental empty_chain 1 ''0xabc'' = Inr False \<and>
   getTotalItems exact rpc_down = Inr 0 \<and>
   getTotalItems exact empty_chain = Inr 0 \<and>
   getTotalRentals exact rpc_down = Inr 0 \<and>
   getTotalRentals exact empty_chain = Inr 0 \<and>
   getItemRenters rpc_down 1 = Inl (SdkError ''could not detect network'')"
proof -
  have a: "c_getActiveItems rpc_down 0 20 = Inl (SdkError ''could not detect network'')"
    "c_getUserItems rpc_down ''0xabc'' = Inl (SdkError ''could not detect network'')"
    "c_getUserRentals rpc_down ''0xabc'' = Inl (SdkError ''could not detect network'')"
    "c_hasActiveRental rpc_down 1 ''0xabc'' = Inl (SdkError ''could not detect network'')"
    "c_getTotalItems rpc_down = Inl (SdkError ''could not detect network'')"
    "c_getTotalRentals rpc_down = Inl (SdkError ''could not detect network'')"
    by (simp_all add: rpc_down_def)
  have b: "c_getActiveItems empty_chain 0 20 = Inr []"
    "c_getUserItems empty_chain ''0xabc'' = Inr []"
    "c_getUserRentals empty_chain ''0xabc'' = Inr []"
    "c_hasActiveRental empty_chain 1 ''0xabc'' = Inr False"
    "c_getTotalItems empty_chain = Inr 0"
    "c_getTotalRentals empty_chain = Inr 0"
    "exact 0 = 0"
    by (simp_all add: empty_chain_def exact_def)
  have c: "getItemRenters rpc_down 1 = Inl (SdkError ''could not detect network'')"
    by (simp add: getItemRenters_def rpc_down_def)
  from read_queries_never_reject [where Number = exact and ?Number0.0 = exact
      and contract = rpc_down and contract' = empty_chain and offset = None and limit = None
      and userAddress = "''0xabc''" and itemId = 1
      and e = "SdkError ''could not detect network''"] a b c
  show ?thesis by simp
qed

end
